theory Spec2Isabelle
  imports Complex_Main "HOL-Library.AList" "HOL-Library.Sublist"
begin

section \<open>JavaScript values\<close>

text \<open>
  A \<^typ>\<open>string\<close> stands for a JavaScript string whose code units are all below 256
  (one \<^typ>\<open>char\<close> per code unit), so \<open>length\<close> is the \<open>.length\<close> of the source.
  Accented letters of the messages are written with their code unit.
\<close>

abbreviation (input) e_acute :: string where "e_acute \<equiv> [CHR 0xE9]"
abbreviation (input) e_grave :: string where "e_grave \<equiv> [CHR 0xE8]"
abbreviation (input) e_circ :: string where "e_circ \<equiv> [CHR 0xEA]"
abbreviation (input) a_grave :: string where "a_grave \<equiv> [CHR 0xE0]"

text \<open>
  A \<open>number\<close> of the source is a double. No function modelled here does arithmetic on a
  document's numbers, they are only compared with constants, so a finite double is its
  rational value and \<open>NaN\<close> is kept apart: every comparison with \<open>NaN\<close> is false.
  (An infinity compares with a finite constant as a large finite value does.)
\<close>

datatype number = NaN | Num rat

fun js_lt :: "number \<Rightarrow> number \<Rightarrow> bool" where
  "js_lt (Num a) (Num b) = (a < b)"
| "js_lt _ _ = False"

fun js_le :: "number \<Rightarrow> number \<Rightarrow> bool" where
  "js_le (Num a) (Num b) = (a \<le> b)"
| "js_le _ _ = False"

definition js_gt :: "number \<Rightarrow> number \<Rightarrow> bool" where
  "js_gt a b = js_lt b a"

text \<open>The class \<open>\s\<close> of a regular expression, which is also what \<open>trim\<close> removes.\<close>

definition isWhitespace :: "char \<Rightarrow> bool" where
  "isWhitespace c =
     (c \<in> set [CHR 0x09, CHR 0x0A, CHR 0x0B, CHR 0x0C, CHR 0x0D, CHR 0x20, CHR 0xA0])"

definition trim :: "string \<Rightarrow> string" where
  "trim s = rev (dropWhile isWhitespace (rev (dropWhile isWhitespace s)))"

text \<open>The class \<open>\d\<close> and the class \<open>[A-Z]\<close>.\<close>

definition isDigit :: "char \<Rightarrow> bool" where
  "isDigit c = (c \<in> set ''0123456789'')"

definition isUpper :: "char \<Rightarrow> bool" where
  "isUpper c = (c \<in> set ''ABCDEFGHIJKLMNOPQRSTUVWXYZ'')"

definition startsWith :: "string \<Rightarrow> string \<Rightarrow> bool" where
  "startsWith s p = (take (length p) s = p)"

text \<open>\<open>String.prototype.includes\<close>: the needle occurs as a contiguous run.\<close>

definition str_includes :: "string \<Rightarrow> string \<Rightarrow> bool" where
  "str_includes s needle = sublist needle s"

text \<open>
  \<open>toLowerCase\<close> on the letters A to Z. The source only searches the lowered text for
  ASCII words, and no other code unit below 256 lowers to an ASCII letter.
\<close>

definition toLowerCase :: "string \<Rightarrow> string" where
  "toLowerCase s =
     map (\<lambda>c. if isUpper c then char_of (of_char c + (32::nat)) else c) s"

text \<open>\<open>Array.prototype.join\<close> on strings.\<close>

fun join :: "string \<Rightarrow> string list \<Rightarrow> string" where
  "join sep [] = []"
| "join sep [x] = x"
| "join sep (x # y # ys) = x @ sep @ join sep (y # ys)"

text \<open>The decimal text of an array index, as a template literal prints it.\<close>

fun showNat :: "nat \<Rightarrow> string" where
  "showNat n =
     (if n < 10 then [char_of (48 + n)]
      else showNat (n div 10) @ [char_of (48 + n mod 10)])"

text \<open>Truthiness of a \<open>string | null\<close>: \<open>null\<close> and the empty string are falsy.\<close>

fun truthy :: "string option \<Rightarrow> bool" where
  "truthy None = False"
| "truthy (Some s) = (s \<noteq> [])"

text \<open>
  \<open>forEach((x, index) => ...)\<close> over an array, threading the state the callback
  mutates.
\<close>

fun forEachFrom :: "('a \<Rightarrow> nat \<Rightarrow> 's \<Rightarrow> 's) \<Rightarrow> nat \<Rightarrow> 'a list \<Rightarrow> 's \<Rightarrow> 's" where
  "forEachFrom f i [] s = s"
| "forEachFrom f i (x # xs) s = forEachFrom f (Suc i) xs (f x i s)"

definition forEach :: "('a \<Rightarrow> nat \<Rightarrow> 's \<Rightarrow> 's) \<Rightarrow> 'a list \<Rightarrow> 's \<Rightarrow> 's" where
  "forEach f xs s = forEachFrom f 0 xs s"

text \<open>
  JSON values, and a JavaScript object as the list of its properties in insertion order.
  Assigning a property replaces the value of an existing key in place and appends a new
  key at the end, which is \<^const>\<open>AList.update\<close>. (No key used here is an array index,
  the one case where JavaScript orders keys differently.)
\<close>

datatype json =
    JNull
  | JBool bool
  | JNumber number
  | JString string
  | JArray "json list"
  | JObject "(string \<times> json) list"

definition setProp :: "string \<Rightarrow> json \<Rightarrow> (string \<times> json) list \<Rightarrow> (string \<times> json) list" where
  "setProp k v obj = AList.update k v obj"

section \<open>utils/constants.ts\<close>

definition INVOICE_TYPE_SALE :: string where "INVOICE_TYPE_SALE = ''sale''"
definition INVOICE_TYPE_PURCHASE :: string where "INVOICE_TYPE_PURCHASE = ''purchase''"

definition ALLOWED_INVOICE_TYPES :: "string list" where
  "ALLOWED_INVOICE_TYPES = [INVOICE_TYPE_SALE, INVOICE_TYPE_PURCHASE]"

definition ALLOWED_PAYMENT_METHODS :: "string list" where
  "ALLOWED_PAYMENT_METHODS =
     [''cash'', ''card'', ''check'', ''mobile-money'', ''transfer'', ''deferred'']"

definition ALLOWED_TEMPLATES :: "string list" where
  "ALLOWED_TEMPLATES = [''B2B'', ''B2C'', ''B2F'', ''B2G'']"

definition ALLOWED_TAX_TYPES :: "string list" where
  "ALLOWED_TAX_TYPES = [''TVA'', ''TVAB'', ''TVAC'', ''TVAD'']"

definition ALLOWED_CURRENCIES :: "string list" where
  "ALLOWED_CURRENCIES =
     [''XOF'', ''USD'', ''EUR'', ''GBP'', ''JPY'', ''CAD'', ''AUD'', ''CNH'', ''CHF'',
      ''HKD'', ''NZD'']"

definition ENDPOINT_SIGN_INVOICE :: string where
  "ENDPOINT_SIGN_INVOICE = ''/external/invoices/sign''"

definition DEFAULT_TIMEOUT :: int where "DEFAULT_TIMEOUT = 30000"
definition DEFAULT_RETRY_ATTEMPTS :: int where "DEFAULT_RETRY_ATTEMPTS = 3"
definition MIN_API_KEY_LENGTH :: nat where "MIN_API_KEY_LENGTH = 20"

section \<open>utils/helpers.ts: the format checks\<close>

text \<open>\<open>/^\d{7}[A-Z]$/\<close>\<close>

definition isValidNcc :: "string \<Rightarrow> bool" where
  "isValidNcc ncc =
     (length ncc = 8 \<and> list_all isDigit (take 7 ncc) \<and> list_all isUpper (drop 7 ncc))"

text \<open>\<open>phone.replace(/[\s.-]/g, '')\<close>, shared with \<open>cleanPhoneNumber\<close>.\<close>

definition cleanPhoneNumber :: "string \<Rightarrow> string" where
  "cleanPhoneNumber phone =
     filter (\<lambda>c. \<not> (isWhitespace c \<or> c = CHR ''.'' \<or> c = CHR ''-'')) phone"

text \<open>
  \<open>/^0?\d{8,10}$/\<close>: eight to ten digits, or a zero and then eight to ten digits.
\<close>

definition matchesLocal :: "string \<Rightarrow> bool" where
  "matchesLocal s =
     ((list_all isDigit s \<and> 8 \<le> length s \<and> length s \<le> 10) \<or>
      (case s of
         [] \<Rightarrow> False
       | c # cs \<Rightarrow> c = CHR ''0'' \<and> list_all isDigit cs \<and> 8 \<le> length cs \<and> length cs \<le> 10))"

text \<open>
  \<open>/^\+225\d{10}$/\<close> and \<open>/^225\d{10}$/\<close> are a fixed prefix and exactly ten digits.
\<close>

definition isValidPhone :: "string \<Rightarrow> bool" where
  "isValidPhone phone =
     (let cleaned = cleanPhoneNumber phone in
      if startsWith cleaned ''+225'' then
        take 4 cleaned = ''+225'' \<and> length (drop 4 cleaned) = 10 \<and>
        list_all isDigit (drop 4 cleaned)
      else if startsWith cleaned ''225'' then
        take 3 cleaned = ''225'' \<and> length (drop 3 cleaned) = 10 \<and>
        list_all isDigit (drop 3 cleaned)
      else matchesLocal cleaned)"

text \<open>
  \<open>/^[^\s@]+@[^\s@]+\.[^\s@]+$/\<close>: a non-empty local part without blank or \<open>@\<close>, one
  \<open>@\<close>, and a rest without blank or \<open>@\<close> holding a dot that is neither its first nor
  its last character.
\<close>

definition isValidEmail :: "string \<Rightarrow> bool" where
  "isValidEmail email =
     (let localPart = takeWhile (\<lambda>c. c \<noteq> CHR ''@'') email;
          rest = dropWhile (\<lambda>c. c \<noteq> CHR ''@'') email
      in localPart \<noteq> [] \<and> list_all (\<lambda>c. \<not> isWhitespace c) localPart \<and>
         (case rest of
            [] \<Rightarrow> False
          | _ # domain \<Rightarrow>
              list_all (\<lambda>c. \<not> isWhitespace c \<and> c \<noteq> CHR ''@'') domain \<and>
              CHR ''.'' \<in> set (butlast (tl domain))))"

section \<open>exceptions\<close>

type_synonym ValidationErrors = "(string \<times> string) list"

datatype AuthenticationFailure =
  InvalidApiKey | ApiKeyTooShort nat | TokenExpired | Unauthorized | MissingApiKey

datatype NetworkFailure =
    ConnectionFailed
  | Timeout "int option"
  | DnsResolution
  | ConnectionRefused
  | ConnectionReset
  | SslError

text \<open>
  The error classes. \<open>PlainError name message\<close> is a JavaScript \<open>Error\<close> that is none of
  the SDK's classes. An \<open>ApiError\<close> keeps the status code and the decoded body (its
  message is computed from these two). A \<open>NetworkError\<close> keeps which factory built it and
  its \<open>originalError\<close>.
\<close>

datatype FneError =
    PlainError string string
  | ValidationError ValidationErrors
  | AuthenticationError AuthenticationFailure
  | ApiError int "json option"
  | NetworkError NetworkFailure "FneError option"

fun isAuthenticationError :: "FneError \<Rightarrow> bool" where
  "isAuthenticationError (AuthenticationError _) = True"
| "isAuthenticationError _ = False"

fun isApiError :: "FneError \<Rightarrow> bool" where
  "isApiError (ApiError _ _) = True"
| "isApiError _ = False"

fun isNetworkError :: "FneError \<Rightarrow> bool" where
  "isNetworkError (NetworkError _ _) = True"
| "isNetworkError _ = False"

text \<open>\<open>ApiError.isClientError\<close>; it is only called on an \<open>ApiError\<close>.\<close>

fun isClientError :: "FneError \<Rightarrow> bool" where
  "isClientError (ApiError statusCode _) = (400 \<le> statusCode \<and> statusCode < 500)"
| "isClientError _ = False"

definition ApiError_fromResponse :: "int \<Rightarrow> json option \<Rightarrow> FneError" where
  "ApiError_fromResponse statusCode response = ApiError statusCode response"

definition NetworkError_connectionFailed :: "FneError option \<Rightarrow> FneError" where
  "NetworkError_connectionFailed originalError = NetworkError ConnectionFailed originalError"

text \<open>\<open>timeout(timeoutMs)\<close>: a zero \<open>timeoutMs\<close> is falsy and gives the short message.\<close>

definition NetworkError_timeout :: "int option \<Rightarrow> FneError" where
  "NetworkError_timeout timeoutMs =
     NetworkError
       (Timeout (case timeoutMs of None \<Rightarrow> None | Some ms \<Rightarrow> if ms = 0 then None else Some ms))
       None"

definition NetworkError_fromError :: "string \<Rightarrow> string \<Rightarrow> FneError" where
  "NetworkError_fromError name msg =
     (let message = toLowerCase msg in
      if str_includes message ''timeout'' \<or> str_includes message ''timed out'' then
        NetworkError_timeout None
      else if str_includes message ''enotfound'' \<or> str_includes message ''dns'' then
        NetworkError DnsResolution None
      else if str_includes message ''econnrefused'' then NetworkError ConnectionRefused None
      else if str_includes message ''econnreset'' then NetworkError ConnectionReset None
      else if str_includes message ''ssl'' \<or> str_includes message ''certificate'' \<or>
              str_includes message ''tls'' then
        NetworkError SslError (Some (PlainError name msg))
      else NetworkError_connectionFailed (Some (PlainError name msg)))"

section \<open>models\<close>

record CustomTax =
  ct_name :: string
  ct_amount :: number

record InvoiceItem =
  it_description :: string
  it_quantity :: number
  it_amount :: number
  it_taxes :: "string list"
  it_reference :: "string option"
  it_discount :: number
  it_measurementUnit :: "string option"
  it_customTaxes :: "CustomTax list"

record Invoice =
  inv_invoiceType :: string
  inv_paymentMethod :: string
  inv_template :: string
  inv_pointOfSale :: string
  inv_establishment :: string
  inv_clientCompanyName :: string
  inv_clientPhone :: string
  inv_clientEmail :: string
  inv_clientNcc :: "string option"
  inv_clientSellerName :: "string option"
  inv_commercialMessage :: "string option"
  inv_footer :: "string option"
  inv_foreignCurrency :: "string option"
  inv_foreignCurrencyRate :: number
  inv_isRne :: bool
  inv_rne :: "string option"
  inv_discount :: number
  inv_items :: "InvoiceItem list"
  inv_customTaxes :: "CustomTax list"

text \<open>The constructor of \<open>CustomTax\<close> checks its arguments and trims the name.\<close>

definition newCustomTax :: "string \<Rightarrow> number \<Rightarrow> FneError + CustomTax" where
  "newCustomTax name amount =
     (if name = [] \<or> length (trim name) = 0 then
        Inl (PlainError ''Error'' ''Le nom de la taxe est requis'')
      else if js_lt amount (Num 0) then
        Inl (PlainError ''Error'' (''Le montant de la taxe doit '' @ e_circ @ ''tre positif''))
      else Inr \<lparr>ct_name = trim name, ct_amount = amount\<rparr>)"

definition InvoiceItem_addCustomTax :: "string \<Rightarrow> number \<Rightarrow> InvoiceItem \<Rightarrow> FneError + InvoiceItem" where
  "InvoiceItem_addCustomTax name amount item =
     (case newCustomTax name amount of
        Inl e \<Rightarrow> Inl e
      | Inr tax \<Rightarrow> Inr (item\<lparr>it_customTaxes := it_customTaxes item @ [tax]\<rparr>))"

definition InvoiceItem_setDiscount :: "number \<Rightarrow> InvoiceItem \<Rightarrow> FneError + InvoiceItem" where
  "InvoiceItem_setDiscount discount item =
     (if js_lt discount (Num 0) \<or> js_gt discount (Num 100) then
        Inl (PlainError ''Error'' (''La remise doit '' @ e_circ @ ''tre entre 0 et 100''))
      else Inr (item\<lparr>it_discount := discount\<rparr>))"

definition Invoice_addItem :: "InvoiceItem \<Rightarrow> Invoice \<Rightarrow> Invoice" where
  "Invoice_addItem item invoice = invoice\<lparr>inv_items := inv_items invoice @ [item]\<rparr>"

subsection \<open>Serialisation\<close>

definition CustomTax_toArray :: "CustomTax \<Rightarrow> json" where
  "CustomTax_toArray tax =
     JObject [(''name'', JString (ct_name tax)), (''amount'', JNumber (ct_amount tax))]"

definition InvoiceItem_toArray :: "InvoiceItem \<Rightarrow> (string \<times> json) list" where
  "InvoiceItem_toArray item =
     (let result0 =
            [(''description'', JString (it_description item)),
             (''quantity'', JNumber (it_quantity item)),
             (''amount'', JNumber (it_amount item)),
             (''taxes'', JArray (map JString (it_taxes item)))];
          result1 = (case it_reference item of
                       None \<Rightarrow> result0
                     | Some r \<Rightarrow> if r \<noteq> [] then setProp ''reference'' (JString r) result0
                                else result0);
          result2 = (if js_gt (it_discount item) (Num 0)
                     then setProp ''discount'' (JNumber (it_discount item)) result1
                     else result1);
          result3 = (case it_measurementUnit item of
                       None \<Rightarrow> result2
                     | Some u \<Rightarrow> if u \<noteq> [] then setProp ''measurementUnit'' (JString u) result2
                                else result2);
          result4 = (if length (it_customTaxes item) > 0
                     then setProp ''customTaxes''
                            (JArray (map CustomTax_toArray (it_customTaxes item))) result3
                     else result3)
      in result4)"

text \<open>Setting an optional text property when the field is truthy.\<close>

definition setIfTruthy :: "string \<Rightarrow> string option \<Rightarrow> (string \<times> json) list \<Rightarrow> (string \<times> json) list" where
  "setIfTruthy k field obj =
     (case field of
        None \<Rightarrow> obj
      | Some s \<Rightarrow> if s \<noteq> [] then setProp k (JString s) obj else obj)"

definition Invoice_toArray :: "Invoice \<Rightarrow> (string \<times> json) list" where
  "Invoice_toArray invoice =
     (let result0 =
            [(''invoiceType'', JString (inv_invoiceType invoice)),
             (''paymentMethod'', JString (inv_paymentMethod invoice)),
             (''template'', JString (inv_template invoice)),
             (''pointOfSale'', JString (inv_pointOfSale invoice)),
             (''establishment'', JString (inv_establishment invoice)),
             (''clientCompanyName'', JString (inv_clientCompanyName invoice)),
             (''clientPhone'', JString (inv_clientPhone invoice)),
             (''clientEmail'', JString (inv_clientEmail invoice)),
             (''isRne'', JBool (inv_isRne invoice)),
             (''items'', JArray (map (\<lambda>item. JObject (InvoiceItem_toArray item))
                                    (inv_items invoice)))];
          result1 = setIfTruthy ''clientNcc'' (inv_clientNcc invoice) result0;
          result2 = setIfTruthy ''clientSellerName'' (inv_clientSellerName invoice) result1;
          result3 = setIfTruthy ''commercialMessage'' (inv_commercialMessage invoice) result2;
          result4 = setIfTruthy ''footer'' (inv_footer invoice) result3;
          result5 = (if truthy (inv_foreignCurrency invoice)
                     then setProp ''foreignCurrencyRate''
                            (JNumber (inv_foreignCurrencyRate invoice))
                            (setProp ''foreignCurrency''
                               (JString (case inv_foreignCurrency invoice of
                                           None \<Rightarrow> [] | Some c \<Rightarrow> c))
                               result4)
                     else setProp ''foreignCurrencyRate'' (JNumber (Num 0))
                            (setProp ''foreignCurrency'' (JString []) result4));
          result6 = setIfTruthy ''rne'' (inv_rne invoice) result5;
          result7 = (if js_gt (inv_discount invoice) (Num 0)
                     then setProp ''discount'' (JNumber (inv_discount invoice)) result6
                     else result6);
          result8 = (if length (inv_customTaxes invoice) > 0
                     then setProp ''customTaxes''
                            (JArray (map CustomTax_toArray (inv_customTaxes invoice))) result7
                     else result7)
      in result8)"

section \<open>validators/BaseValidator.ts\<close>

text \<open>
  The validator's only field is \<open>errors\<close>; each method takes the error set and returns
  it updated, next to its own result.
\<close>

definition addError :: "string \<Rightarrow> string \<Rightarrow> ValidationErrors \<Rightarrow> ValidationErrors" where
  "addError field message errors = AList.update field message errors"

definition displayNameOf :: "string \<Rightarrow> string option \<Rightarrow> string" where
  "displayNameOf field fieldName = (case fieldName of None \<Rightarrow> field | Some n \<Rightarrow> n)"

text \<open>The value is \<open>None\<close> for \<open>null\<close> or \<open>undefined\<close>; every caller passes a string.\<close>

definition validateRequired ::
  "string \<Rightarrow> string option \<Rightarrow> string option \<Rightarrow> ValidationErrors \<Rightarrow> bool \<times> ValidationErrors" where
  "validateRequired field v fieldName errors =
     (let displayName = displayNameOf field fieldName in
      case v of
        None \<Rightarrow> (False, addError field (''Le champ '' @ displayName @ '' est requis'') errors)
      | Some s \<Rightarrow>
          if length (trim s) = 0
          then (False, addError field (''Le champ '' @ displayName @ '' est requis'') errors)
          else (True, errors))"

definition validateEmail :: "string \<Rightarrow> string \<Rightarrow> ValidationErrors \<Rightarrow> bool \<times> ValidationErrors" where
  "validateEmail field email errors =
     (if \<not> isValidEmail email
      then (False, addError field ''L'adresse email n'est pas valide'' errors)
      else (True, errors))"

definition validatePhone :: "string \<Rightarrow> string \<Rightarrow> ValidationErrors \<Rightarrow> bool \<times> ValidationErrors" where
  "validatePhone field phone errors =
     (if \<not> isValidPhone phone
      then (False,
            addError field
              (''Le num'' @ e_acute @ ''ro de t'' @ e_acute @ ''l'' @ e_acute @
               ''phone n'est pas valide (format: 8-10 chiffres)'')
              errors)
      else (True, errors))"

definition validateNcc :: "string \<Rightarrow> string \<Rightarrow> ValidationErrors \<Rightarrow> bool \<times> ValidationErrors" where
  "validateNcc field ncc errors =
     (if \<not> isValidNcc ncc
      then (False,
            addError field
              ''Le NCC n'est pas valide (format: 7 chiffres + 1 lettre majuscule)'' errors)
      else (True, errors))"

definition validateInArray ::
  "string \<Rightarrow> string \<Rightarrow> string list \<Rightarrow> string option \<Rightarrow> ValidationErrors \<Rightarrow> bool \<times> ValidationErrors" where
  "validateInArray field v allowedValues fieldName errors =
     (let displayName = displayNameOf field fieldName in
      if v \<notin> set allowedValues then
        (let allowed = join '', '' allowedValues in
         (False,
          addError field
            (''La valeur de '' @ displayName @ '' doit '' @ e_circ @ ''tre parmi: '' @ allowed)
            errors))
      else (True, errors))"

definition hasErrors :: "ValidationErrors \<Rightarrow> bool" where
  "hasErrors errors = (length (map fst errors) > 0)"

definition throwIfErrors :: "ValidationErrors \<Rightarrow> FneError + unit" where
  "throwIfErrors errors = (if hasErrors errors then Inl (ValidationError errors) else Inr ())"

definition resetErrors :: "ValidationErrors \<Rightarrow> ValidationErrors" where
  "resetErrors errors = []"

section \<open>validators/InvoiceValidator.ts\<close>

definition validateBaseFields :: "Invoice \<Rightarrow> ValidationErrors \<Rightarrow> ValidationErrors" where
  "validateBaseFields invoice errors0 =
     (let errors1 = snd (validateRequired ''invoiceType'' (Some (inv_invoiceType invoice)) None
                           errors0);
          errors2 = snd (validateInArray ''invoiceType'' (inv_invoiceType invoice)
                           ALLOWED_INVOICE_TYPES (Some ''type de facture'') errors1);
          errors3 = snd (validateRequired ''paymentMethod'' (Some (inv_paymentMethod invoice))
                           None errors2);
          errors4 = snd (validateInArray ''paymentMethod'' (inv_paymentMethod invoice)
                           ALLOWED_PAYMENT_METHODS
                           (Some (''m'' @ e_acute @ ''thode de paiement'')) errors3);
          errors5 = snd (validateRequired ''template'' (Some (inv_template invoice)) None
                           errors4);
          errors6 = snd (validateInArray ''template'' (inv_template invoice) ALLOWED_TEMPLATES
                           (Some ''template'') errors5);
          errors7 = snd (validateRequired ''pointOfSale'' (Some (inv_pointOfSale invoice))
                           (Some ''point de vente'') errors6);
          errors8 = snd (validateRequired ''establishment'' (Some (inv_establishment invoice))
                           (Some (e_acute @ ''tablissement'')) errors7)
      in errors8)"

definition validateClientFields :: "Invoice \<Rightarrow> ValidationErrors \<Rightarrow> ValidationErrors" where
  "validateClientFields invoice errors0 =
     (let errors1 = snd (validateRequired ''clientCompanyName''
                           (Some (inv_clientCompanyName invoice)) (Some ''nom du client'')
                           errors0);
          phoneGiven = validateRequired ''clientPhone'' (Some (inv_clientPhone invoice))
                         (Some (''t'' @ e_acute @ ''l'' @ e_acute @ ''phone'')) errors1;
          errors2 = (if fst phoneGiven
                     then snd (validatePhone ''clientPhone'' (inv_clientPhone invoice)
                                 (snd phoneGiven))
                     else snd phoneGiven);
          emailGiven = validateRequired ''clientEmail'' (Some (inv_clientEmail invoice))
                         (Some ''email'') errors2;
          errors3 = (if fst emailGiven
                     then snd (validateEmail ''clientEmail'' (inv_clientEmail invoice)
                                 (snd emailGiven))
                     else snd emailGiven)
      in errors3)"

text \<open>
  The rate is a \<open>number\<close> field that the constructor and the setter default to 0, so
  \<open>rate === undefined\<close> does not arise.
\<close>

definition validateTemplateRules :: "Invoice \<Rightarrow> ValidationErrors \<Rightarrow> ValidationErrors" where
  "validateTemplateRules invoice errors0 =
     (let template = inv_template invoice;
          errors1 =
            (if template = ''B2B'' then
               (case inv_clientNcc invoice of
                  None \<Rightarrow>
                    addError ''clientNcc'' ''Le NCC client est requis pour les factures B2B''
                      errors0
                | Some ncc \<Rightarrow>
                    if ncc = [] \<or> length (trim ncc) = 0
                    then addError ''clientNcc''
                           ''Le NCC client est requis pour les factures B2B'' errors0
                    else snd (validateNcc ''clientNcc'' ncc errors0))
             else errors0);
          errors3 =
            (if template = ''B2F'' then
               (let currency = inv_foreignCurrency invoice;
                    rate = inv_foreignCurrencyRate invoice;
                    errors2 =
                      (case currency of
                         None \<Rightarrow>
                           addError ''foreignCurrency''
                             (''La devise '' @ e_acute @
                              ''trang'' @ e_grave @ ''re est requise pour les factures B2F'')
                             errors1
                       | Some c \<Rightarrow>
                           if c = []
                           then addError ''foreignCurrency''
                                  (''La devise '' @ e_acute @
                                   ''trang'' @ e_grave @ ''re est requise pour les factures B2F'')
                                  errors1
                           else snd (validateInArray ''foreignCurrency'' c ALLOWED_CURRENCIES
                                       (Some (''devise '' @ e_acute @ ''trang'' @ e_grave @ ''re''))
                                       errors1))
                in if truthy currency \<and> js_le rate (Num 0)
                   then addError ''foreignCurrencyRate''
                          (''Le taux de change doit '' @ e_circ @ ''tre sup'' @ e_acute @
                           ''rieur '' @ a_grave @ '' 0 pour les factures B2F'')
                          errors2
                   else errors2)
             else errors1)
      in errors3)"

text \<open>The two checks made on every custom tax, under the key prefix of its owner.\<close>

definition validateCustomTax :: "string \<Rightarrow> CustomTax \<Rightarrow> nat \<Rightarrow> ValidationErrors \<Rightarrow> ValidationErrors" where
  "validateCustomTax pre customTax taxIndex errors0 =
     (let errors1 =
            (if ct_name customTax = [] \<or> length (trim (ct_name customTax)) = 0
             then addError (pre @ ''customTaxes['' @ showNat taxIndex @ ''].name'')
                    (''Le nom de la taxe personnalis'' @ e_acute @ ''e est requis'') errors0
             else errors0);
          errors2 =
            (if js_lt (ct_amount customTax) (Num 0)
             then addError (pre @ ''customTaxes['' @ showNat taxIndex @ ''].amount'')
                    (''Le montant de la taxe personnalis'' @ e_acute @ ''e doit '' @ e_circ @
                     ''tre positif'')
                    errors1
             else errors1)
      in errors2)"

definition validateItem :: "InvoiceItem \<Rightarrow> nat \<Rightarrow> string \<Rightarrow> ValidationErrors \<Rightarrow> ValidationErrors" where
  "validateItem item index invoiceType errors0 =
     (let pre = ''items['' @ showNat index @ '']'';
          errors1 =
            (if it_description item = [] \<or> length (trim (it_description item)) = 0
             then addError (pre @ ''.description'') ''La description est requise'' errors0
             else errors0);
          errors2 =
            (if js_le (it_quantity item) (Num 0)
             then addError (pre @ ''.quantity'')
                    (''La quantit'' @ e_acute @ '' doit '' @ e_circ @ ''tre sup'' @ e_acute @
                     ''rieure '' @ a_grave @ '' 0'')
                    errors1
             else errors1);
          errors3 =
            (if js_le (it_amount item) (Num 0)
             then addError (pre @ ''.amount'')
                    (''Le montant doit '' @ e_circ @ ''tre sup'' @ e_acute @ ''rieur '' @
                     a_grave @ '' 0'')
                    errors2
             else errors2);
          errors4 =
            (if invoiceType = INVOICE_TYPE_SALE then
               (let taxes = it_taxes item in
                if length taxes = 0
                then addError (pre @ ''.taxes'')
                       ''Au moins un type de taxe est requis pour les factures de vente''
                       errors3
                else forEach
                       (\<lambda>tax taxIndex errs.
                          if tax \<notin> set ALLOWED_TAX_TYPES
                          then addError (pre @ ''.taxes['' @ showNat taxIndex @ '']'')
                                 (''Type de taxe invalide: '' @ tax @ ''. Valeurs accept'' @
                                  e_acute @ ''es: '' @ join '', '' ALLOWED_TAX_TYPES)
                                 errs
                          else errs)
                       taxes errors3)
             else errors3);
          discount = it_discount item;
          errors5 =
            (if js_lt discount (Num 0) \<or> js_gt discount (Num 100)
             then addError (pre @ ''.discount'')
                    (''La remise doit '' @ e_circ @ ''tre entre 0 et 100'') errors4
             else errors4);
          errors6 = forEach (validateCustomTax (pre @ ''.'')) (it_customTaxes item) errors5
      in errors6)"

definition validateItems :: "Invoice \<Rightarrow> ValidationErrors \<Rightarrow> ValidationErrors" where
  "validateItems invoice errors0 =
     (let items = inv_items invoice in
      if length items = 0
      then addError ''items'' ''La facture doit contenir au moins un article'' errors0
      else forEach (\<lambda>item index errs. validateItem item index (inv_invoiceType invoice) errs)
             items errors0)"

definition validateOptionalFields :: "Invoice \<Rightarrow> ValidationErrors \<Rightarrow> ValidationErrors" where
  "validateOptionalFields invoice errors0 =
     (let errors1 =
            (case inv_foreignCurrency invoice of
               None \<Rightarrow> errors0
             | Some currency \<Rightarrow>
                 if currency \<noteq> [] \<and> currency \<notin> set ALLOWED_CURRENCIES
                 then addError ''foreignCurrency''
                        (''Devise invalide: '' @ currency @ ''. Valeurs accept'' @ e_acute @
                         ''es: '' @ join '', '' ALLOWED_CURRENCIES)
                        errors0
                 else errors0);
          discount = inv_discount invoice;
          errors2 =
            (if js_lt discount (Num 0) \<or> js_gt discount (Num 100)
             then addError ''discount''
                    (''La remise globale doit '' @ e_circ @ ''tre entre 0 et 100'') errors1
             else errors1);
          errors3 =
            (if inv_isRne invoice \<and> \<not> truthy (inv_rne invoice)
             then addError ''rne''
                    (''Le num'' @ e_acute @ ''ro RNE est requis si isRne est true'') errors2
             else errors2);
          errors4 = forEach (validateCustomTax []) (inv_customTaxes invoice) errors3
      in errors4)"

text \<open>
  The error set a run of \<open>validate\<close> leaves in the validator, whatever it held before.
\<close>

definition runValidation :: "ValidationErrors \<Rightarrow> Invoice \<Rightarrow> ValidationErrors" where
  "runValidation errors invoice =
     validateOptionalFields invoice
       (validateItems invoice
          (validateTemplateRules invoice
             (validateClientFields invoice
                (validateBaseFields invoice (resetErrors errors)))))"

text \<open>
  \<open>validate\<close>: the result is \<open>Inl\<close> of the \<open>ValidationError\<close> thrown or \<open>Inr ()\<close>, next to
  the validator's error set after the call.
\<close>

definition validate :: "ValidationErrors \<Rightarrow> Invoice \<Rightarrow> (FneError + unit) \<times> ValidationErrors" where
  "validate errors invoice =
     (let errors' = runValidation errors invoice in (throwIfErrors errors', errors'))"

section \<open>auth/TokenManager.ts\<close>

text \<open>
  The clock is a parameter: \<open>now\<close> is what \<open>Date.now()\<close> returns at the call, in
  milliseconds. The cache is a \<open>Map\<close> from keys to entries.
\<close>

record 'a CacheEntry =
  data :: 'a
  expiresAt :: int

record 'a TokenManager =
  apiKey :: "string option"
  cache :: "string \<rightharpoonup> 'a CacheEntry"

definition newTokenManager :: "'a TokenManager" where
  "newTokenManager = \<lparr>apiKey = None, cache = Map.empty\<rparr>"

text \<open>\<open>ttlSeconds\<close> is optional and defaults to 3600.\<close>

definition cacheResponse :: "int \<Rightarrow> string \<Rightarrow> 'a \<Rightarrow> int option \<Rightarrow> 'a TokenManager \<Rightarrow> 'a TokenManager" where
  "cacheResponse now key d ttlSeconds tm =
     (let ttl = (case ttlSeconds of None \<Rightarrow> 3600 | Some t \<Rightarrow> t);
          expiresAt = now + ttl * 1000
      in tm\<lparr>cache := (cache tm)(key \<mapsto> \<lparr>data = d, expiresAt = expiresAt\<rparr>)\<rparr>)"

text \<open>The result is \<open>None\<close> where the source returns \<open>null\<close>.\<close>

definition getCachedResponse :: "int \<Rightarrow> string \<Rightarrow> 'a TokenManager \<Rightarrow> 'a option \<times> 'a TokenManager" where
  "getCachedResponse now key tm =
     (case cache tm key of
        None \<Rightarrow> (None, tm)
      | Some cached \<Rightarrow>
          if now > expiresAt cached
          then (None, tm\<lparr>cache := (cache tm)(key := None)\<rparr>)
          else (Some (data cached), tm))"

section \<open>http/Response.ts and http/HttpClient.ts\<close>

text \<open>
  A response is its status code and \<open>resp_json\<close>, the value \<open>json()\<close> returns: the body
  parsed by \<open>JSON.parse\<close>, or \<open>None\<close> (\<open>null\<close>) when the body does not parse.
\<close>

record Response =
  resp_statusCode :: int
  resp_json :: "json option"

definition isSuccess :: "Response \<Rightarrow> bool" where
  "isSuccess response = (200 \<le> resp_statusCode response \<and> resp_statusCode response < 300)"

text \<open>
  Of the client's fields the request loop reads the timeout and the number of attempts;
  the base URL and the API key only shape the URL and the headers handed to \<open>fetch\<close>.
\<close>

record HttpClientConfig =
  cfg_timeout :: int
  cfg_retryAttempts :: int

text \<open>What one call of \<open>fetch\<close> does: it resolves, or rejects with an error (name, message).\<close>

datatype FetchOutcome = Resolved Response | Rejected string string

definition executeRequest :: "HttpClientConfig \<Rightarrow> FetchOutcome \<Rightarrow> FneError + Response" where
  "executeRequest cfg outcome =
     (case outcome of
        Resolved response \<Rightarrow> Inr response
      | Rejected name message \<Rightarrow>
          if name = ''AbortError'' then Inl (NetworkError_timeout (Some (cfg_timeout cfg)))
          else Inl (NetworkError_fromError name message))"

definition handleResponse :: "Response \<Rightarrow> FneError + Response" where
  "handleResponse response =
     (if isSuccess response then Inr response
      else if resp_statusCode response = 401 then Inl (AuthenticationError Unauthorized)
      else Inl (ApiError_fromResponse (resp_statusCode response) (resp_json response)))"

text \<open>What the pipeline does that an observer can count: a transport call, a backoff wait.\<close>

datatype Event = Attempt int | Sleep nat

text \<open>
  What the \<open>try\<close> block of \<open>request\<close> yields at one attempt: \<open>executeRequest\<close>, then
  \<open>handleResponse\<close> on its response; what either throws reaches the \<open>catch\<close>.
\<close>

definition attemptOutcome :: "(int \<Rightarrow> FneError + Response) \<Rightarrow> int \<Rightarrow> FneError + Response" where
  "attemptOutcome exec attempt =
     (case exec attempt of Inl e \<Rightarrow> Inl e | Inr response \<Rightarrow> handleResponse response)"

text \<open>
  The body of \<open>request\<close> from the \<open>for\<close> loop on. \<open>exec attempt\<close> is what
  \<open>executeRequest\<close> does at that attempt, \<open>lastError\<close> the loop's variable (\<open>None\<close> for
  \<open>null\<close>), \<open>tr\<close> the events so far. The result is the response returned or the error
  thrown.
\<close>

function requestLoop ::
  "int \<Rightarrow> (int \<Rightarrow> FneError + Response) \<Rightarrow> int \<Rightarrow> FneError option \<Rightarrow> Event list
   \<Rightarrow> (FneError + Response) \<times> Event list" where
  "requestLoop retryAttempts exec attempt lastError tr =
     (if attempt \<le> retryAttempts then
        (case attemptOutcome exec attempt of
           Inr response \<Rightarrow> (Inr response, tr @ [Attempt attempt])
         | Inl error \<Rightarrow>
             if isAuthenticationError error \<or> (isApiError error \<and> isClientError error)
             then (Inl error, tr @ [Attempt attempt])
             else if attempt < retryAttempts
             then requestLoop retryAttempts exec (attempt + 1) (Some error)
                    (tr @ [Attempt attempt, Sleep (2 ^ nat (attempt - 1) * 1000)])
             else requestLoop retryAttempts exec (attempt + 1) (Some error)
                    (tr @ [Attempt attempt]))
      else
        (case lastError of
           None \<Rightarrow> (Inl (NetworkError_connectionFailed None), tr)
         | Some e \<Rightarrow>
             if isNetworkError e \<or> isApiError e then (Inl e, tr)
             else (Inl (NetworkError_connectionFailed (Some e)), tr)))"
  by pat_completeness auto
termination
  by (relation "measure (\<lambda>(retryAttempts, exec, attempt, lastError, tr).
                            nat (retryAttempts + 1 - attempt))") auto

declare requestLoop.simps [simp del]

definition request :: "HttpClientConfig \<Rightarrow> (int \<Rightarrow> FetchOutcome) \<Rightarrow> (FneError + Response) \<times> Event list" where
  "request cfg fetch =
     requestLoop (cfg_retryAttempts cfg) (\<lambda>attempt. executeRequest cfg (fetch attempt)) 1 None []"

text \<open>\<open>post\<close> passes the endpoint and the payload on; neither changes what \<open>request\<close> does.\<close>

definition post ::
  "HttpClientConfig \<Rightarrow> (int \<Rightarrow> FetchOutcome) \<Rightarrow> string \<Rightarrow> (string \<times> json) list
   \<Rightarrow> (FneError + Response) \<times> Event list" where
  "post cfg fetch endpoint payload = request cfg fetch"

section \<open>models/ApiResponse.ts and services/InvoiceService.ts\<close>

text \<open>Truthiness of a JSON value, for \<open>if (!json)\<close>.\<close>

fun json_truthy :: "json \<Rightarrow> bool" where
  "json_truthy JNull = False"
| "json_truthy (JBool b) = b"
| "json_truthy (JNumber NaN) = False"
| "json_truthy (JNumber (Num r)) = (r \<noteq> 0)"
| "json_truthy (JString s) = (s \<noteq> [])"
| "json_truthy (JArray _) = True"
| "json_truthy (JObject _) = True"

text \<open>
  \<open>json[key] ?? dflt\<close> on the spread \<open>{...json, statusCode}\<close>. Only an object
  contributes a named key to the spread (a string or an array spreads into index keys).
\<close>

definition propOr :: "json \<Rightarrow> string \<Rightarrow> json \<Rightarrow> json" where
  "propOr j key dflt =
     (case j of
        JObject props \<Rightarrow>
          (case map_of props key of None \<Rightarrow> dflt | Some JNull \<Rightarrow> dflt | Some v \<Rightarrow> v)
      | _ \<Rightarrow> dflt)"

record ApiResponse =
  ar_ncc :: json
  ar_reference :: json
  ar_token :: json
  ar_warning :: json
  ar_balanceSticker :: json
  ar_invoice :: json
  ar_statusCode :: int

definition ApiResponse_fromJSON :: "json \<Rightarrow> int \<Rightarrow> ApiResponse" where
  "ApiResponse_fromJSON j statusCode =
     \<lparr>ar_ncc = propOr j ''ncc'' (JString []),
      ar_reference = propOr j ''reference'' (JString []),
      ar_token = propOr j ''token'' (JString []),
      ar_warning = propOr j ''warning'' (JBool False),
      ar_balanceSticker = propOr j ''balance_sticker'' (JNumber (Num 0)),
      ar_invoice = propOr j ''invoice'' (JObject []),
      ar_statusCode = statusCode\<rparr>"

text \<open>
  \<open>signInvoice\<close>, with the validator's error set as state: the result or the error
  thrown, the transport events, and the validator's error set after the call.
\<close>

definition signInvoice ::
  "HttpClientConfig \<Rightarrow> (int \<Rightarrow> FetchOutcome) \<Rightarrow> ValidationErrors \<Rightarrow> Invoice
   \<Rightarrow> (FneError + ApiResponse) \<times> Event list \<times> ValidationErrors" where
  "signInvoice cfg fetch errors invoice =
     (case validate errors invoice of
        (Inl e, errors') \<Rightarrow> (Inl e, [], errors')
      | (Inr _, errors') \<Rightarrow>
          (case post cfg fetch ENDPOINT_SIGN_INVOICE (Invoice_toArray invoice) of
             (Inl e, tr) \<Rightarrow> (Inl e, tr, errors')
           | (Inr response, tr) \<Rightarrow>
               (case resp_json response of
                  None \<Rightarrow> (Inl (PlainError ''Error'' (''R'' @ e_acute @ ''ponse API invalide'')),
                           tr, errors')
                | Some j \<Rightarrow>
                    if \<not> json_truthy j
                    then (Inl (PlainError ''Error'' (''R'' @ e_acute @ ''ponse API invalide'')),
                          tr, errors')
                    else (Inr (ApiResponse_fromJSON j (resp_statusCode response)), tr,
                          errors'))))"

section \<open>The acceptance rule for phone numbers as the specification words it\<close>

text \<open>
  On the cleaned text: \<open>+225\<close> and exactly ten digits, or \<open>225\<close> and exactly ten digits,
  or a bare local number of eight to ten digits.
\<close>

definition spec_phone_accepts :: "string \<Rightarrow> bool" where
  "spec_phone_accepts cleaned =
     ((take 4 cleaned = ''+225'' \<and> length (drop 4 cleaned) = 10 \<and>
       list_all isDigit (drop 4 cleaned)) \<or>
      (take 3 cleaned = ''225'' \<and> length (drop 3 cleaned) = 10 \<and>
       list_all isDigit (drop 3 cleaned)) \<or>
      (list_all isDigit cleaned \<and> 8 \<le> length cleaned \<and> length cleaned \<le> 10))"

text \<open>A key of the error set that concerns the line items: it starts with \<open>items\<close>.\<close>

definition itemsRelated :: "string \<Rightarrow> bool" where
  "itemsRelated k = startsWith k ''items''"

text \<open>A key of one line item, \<open>items[i].field\<close>: it starts with \<open>items[\<close>.\<close>

definition itemLevel :: "string \<Rightarrow> bool" where
  "itemLevel k = startsWith k ''items[''"

section \<open>Documents of the test suite\<close>

text \<open>The valid consumer invoice of the validator's tests, and its one line item.\<close>

definition exampleItem :: InvoiceItem where
  "exampleItem =
     \<lparr>it_description = ''Product'', it_quantity = Num 1, it_amount = Num 10000,
      it_taxes = [''TVA''], it_reference = None, it_discount = Num 0,
      it_measurementUnit = None, it_customTaxes = []\<rparr>"

definition exampleInvoice :: Invoice where
  "exampleInvoice =
     \<lparr>inv_invoiceType = ''sale'', inv_paymentMethod = ''cash'', inv_template = ''B2C'',
      inv_pointOfSale = ''Caisse 1'', inv_establishment = ''Magasin Principal'',
      inv_clientCompanyName = ''Jean Dupont'', inv_clientPhone = ''0709123456'',
      inv_clientEmail = ''jean@email.com'', inv_clientNcc = None,
      inv_clientSellerName = None, inv_commercialMessage = None, inv_footer = None,
      inv_foreignCurrency = None, inv_foreignCurrencyRate = Num 0, inv_isRne = False,
      inv_rne = None, inv_discount = Num 0, inv_items = [exampleItem],
      inv_customTaxes = []\<rparr>"

text \<open>
  The item of the serialisation tests: a discount of 10 and the custom tax DTD of 1000;
  and an export invoice in euros that carries it.
\<close>

definition dtdTax :: CustomTax where
  "dtdTax = \<lparr>ct_name = ''DTD'', ct_amount = Num 1000\<rparr>"

definition discountedItem :: InvoiceItem where
  "discountedItem = exampleItem\<lparr>it_discount := Num 10, it_customTaxes := [dtdTax]\<rparr>"

definition exportInvoice :: Invoice where
  "exportInvoice =
     exampleInvoice\<lparr>inv_template := ''B2F'', inv_foreignCurrency := Some ''EUR'',
       inv_foreignCurrencyRate := Num (655957 / 1000), inv_items := [discountedItem],
       inv_customTaxes := [dtdTax]\<rparr>"

text \<open>
  A client with the default settings; a server that answers 500 and, at the third
  attempt, 401; and a transport whose second call throws an error of no SDK class.
\<close>

definition defaultConfig :: HttpClientConfig where
  "defaultConfig = \<lparr>cfg_timeout = DEFAULT_TIMEOUT, cfg_retryAttempts = DEFAULT_RETRY_ATTEMPTS\<rparr>"

definition unauthorizedAtLast :: "int \<Rightarrow> FetchOutcome" where
  "unauthorizedAtLast attempt =
     (if attempt = 3 then Resolved \<lparr>resp_statusCode = 401, resp_json = None\<rparr>
      else Resolved \<lparr>resp_statusCode = 500, resp_json = None\<rparr>)"

definition unauthorizedAtLastExec :: "int \<Rightarrow> FneError + Response" where
  "unauthorizedAtLastExec attempt = executeRequest defaultConfig (unauthorizedAtLast attempt)"

definition brokenTransport :: "int \<Rightarrow> FneError + Response" where
  "brokenTransport attempt =
     (if attempt = 1 then Inl (NetworkError DnsResolution None)
      else Inl (PlainError ''TypeError'' ''boom''))"

section \<open>The retry loop\<close>

lemma executeRequest_Rejected:
  "\<exists>kind oe. executeRequest cfg (Rejected n m) = Inl (NetworkError kind oe)"
  by (simp add: executeRequest_def NetworkError_timeout_def NetworkError_fromError_def
      NetworkError_connectionFailed_def Let_def)

lemma attemptOutcome_Rejected:
  "fetch k = Rejected n m \<Longrightarrow>
   \<exists>kind oe. attemptOutcome (\<lambda>a. executeRequest cfg (fetch a)) k = Inl (NetworkError kind oe)"
  using executeRequest_Rejected [of cfg n m] by (auto simp: attemptOutcome_def)

lemma attemptOutcome_Resolved:
  "fetch k = Resolved r \<Longrightarrow>
   attemptOutcome (\<lambda>a. executeRequest cfg (fetch a)) k = handleResponse r"
  by (simp add: attemptOutcome_def executeRequest_def)

text \<open>One turn of the loop, by what the attempt yields.\<close>

lemma requestLoop_return:
  "attempt \<le> n \<Longrightarrow> attemptOutcome exec attempt = Inr r \<Longrightarrow>
   requestLoop n exec attempt le tr = (Inr r, tr @ [Attempt attempt])"
  by (simp add: requestLoop.simps [of n exec attempt])

lemma requestLoop_fatal:
  "attempt \<le> n \<Longrightarrow> attemptOutcome exec attempt = Inl e \<Longrightarrow>
   isAuthenticationError e \<or> (isApiError e \<and> isClientError e) \<Longrightarrow>
   requestLoop n exec attempt le tr = (Inl e, tr @ [Attempt attempt])"
  by (simp add: requestLoop.simps [of n exec attempt])

lemma requestLoop_retry:
  "attempt < n \<Longrightarrow> attemptOutcome exec attempt = Inl e \<Longrightarrow>
   \<not> isAuthenticationError e \<Longrightarrow> \<not> (isApiError e \<and> isClientError e) \<Longrightarrow>
   requestLoop n exec attempt le tr =
     requestLoop n exec (attempt + 1) (Some e)
       (tr @ [Attempt attempt, Sleep (2 ^ nat (attempt - 1) * 1000)])"
  by (auto simp: requestLoop.simps [of n exec attempt])

lemma requestLoop_exhausted:
  "attempt = n \<Longrightarrow> attemptOutcome exec attempt = Inl e \<Longrightarrow>
   \<not> isAuthenticationError e \<Longrightarrow> \<not> (isApiError e \<and> isClientError e) \<Longrightarrow>
   requestLoop n exec attempt le tr =
     (Inl (if isNetworkError e \<or> isApiError e then e
           else NetworkError_connectionFailed (Some e)),
      tr @ [Attempt attempt])"
  by (auto simp: requestLoop.simps [of n exec n] requestLoop.simps [of n exec "n + 1"])

text \<open>
  C1. With three attempts allowed: two transport failures and then a success give the
  success response after waits of 1000 ms and 2000 ms; a first response 401 throws an
  \<open>AuthenticationError\<close> after one attempt and no wait; a first response 400 throws an
  \<open>ApiError\<close> with status 400 (a client error) after one attempt and no wait; three
  responses 500 throw the last \<open>ApiError\<close> after three attempts and two waits.
\<close>

theorem C1_retry_policy:
  assumes n: "cfg_retryAttempts cfg = 3"
  shows
    "(fetchA 1 = Rejected n1 m1 \<and> fetchA 2 = Rejected n2 m2 \<and> fetchA 3 = Resolved ok \<and>
      isSuccess ok \<longrightarrow>
        request cfg fetchA =
          (Inr ok, [Attempt 1, Sleep 1000, Attempt 2, Sleep 2000, Attempt 3])) \<and>
     (fetchB 1 = Resolved r401 \<and> resp_statusCode r401 = 401 \<longrightarrow>
        request cfg fetchB = (Inl (AuthenticationError Unauthorized), [Attempt 1])) \<and>
     (fetchC 1 = Resolved r400 \<and> resp_statusCode r400 = 400 \<longrightarrow>
        request cfg fetchC = (Inl (ApiError 400 (resp_json r400)), [Attempt 1]) \<and>
        isClientError (ApiError 400 (resp_json r400))) \<and>
     ((\<forall>k \<in> {1, 2, 3}. fetchD k = Resolved (r500 k) \<and> resp_statusCode (r500 k) = 500) \<longrightarrow>
        request cfg fetchD =
          (Inl (ApiError 500 (resp_json (r500 3))),
           [Attempt 1, Sleep 1000, Attempt 2, Sleep 2000, Attempt 3]))"
proof (intro conjI impI)
  assume a: "fetchA 1 = Rejected n1 m1 \<and> fetchA 2 = Rejected n2 m2 \<and>
             fetchA 3 = Resolved ok \<and> isSuccess ok"
  let ?exec = "\<lambda>a. executeRequest cfg (fetchA a)"
  obtain k1 o1 where e1: "attemptOutcome ?exec 1 = Inl (NetworkError k1 o1)"
    using attemptOutcome_Rejected [where fetch = fetchA and k = 1] a by blast
  obtain k2 o2 where e2: "attemptOutcome ?exec 2 = Inl (NetworkError k2 o2)"
    using attemptOutcome_Rejected [where fetch = fetchA and k = 2] a by blast
  have e3: "attemptOutcome ?exec 3 = Inr ok"
    using attemptOutcome_Resolved [where fetch = fetchA and k = 3] a
    by (simp add: handleResponse_def)
  show "request cfg fetchA =
          (Inr ok, [Attempt 1, Sleep 1000, Attempt 2, Sleep 2000, Attempt 3])"
    unfolding request_def n
    apply (subst requestLoop_retry [OF _ e1]; simp)
    apply (subst requestLoop_retry [OF _ e2]; simp)
    apply (subst requestLoop_return [OF _ e3]; simp)
    done
next
  assume b: "fetchB 1 = Resolved r401 \<and> resp_statusCode r401 = 401"
  have e1: "attemptOutcome (\<lambda>a. executeRequest cfg (fetchB a)) 1 =
              Inl (AuthenticationError Unauthorized)"
    using attemptOutcome_Resolved [where fetch = fetchB and k = 1] b
    by (simp add: handleResponse_def isSuccess_def)
  show "request cfg fetchB = (Inl (AuthenticationError Unauthorized), [Attempt 1])"
    unfolding request_def n by (subst requestLoop_fatal [OF _ e1]; simp)
next
  assume c: "fetchC 1 = Resolved r400 \<and> resp_statusCode r400 = 400"
  have e1: "attemptOutcome (\<lambda>a. executeRequest cfg (fetchC a)) 1 =
              Inl (ApiError 400 (resp_json r400))"
    using attemptOutcome_Resolved [where fetch = fetchC and k = 1] c
    by (simp add: handleResponse_def isSuccess_def ApiError_fromResponse_def)
  show "request cfg fetchC = (Inl (ApiError 400 (resp_json r400)), [Attempt 1])"
    unfolding request_def n by (subst requestLoop_fatal [OF _ e1]; simp)
next
  show "isClientError (ApiError 400 (resp_json r400))" by simp
next
  assume d: "\<forall>k \<in> {1, 2, 3}. fetchD k = Resolved (r500 k) \<and> resp_statusCode (r500 k) = 500"
  have e: "attemptOutcome (\<lambda>a. executeRequest cfg (fetchD a)) k =
             Inl (ApiError 500 (resp_json (r500 k)))" if "k \<in> {1, 2, 3}" for k
    using attemptOutcome_Resolved [where fetch = fetchD and k = k] d that
    by (auto simp: handleResponse_def isSuccess_def ApiError_fromResponse_def)
  show "request cfg fetchD =
          (Inl (ApiError 500 (resp_json (r500 3))),
           [Attempt 1, Sleep 1000, Attempt 2, Sleep 2000, Attempt 3])"
    unfolding request_def n
    apply (subst requestLoop_retry [OF _ e [of 1]]; simp)
    apply (subst requestLoop_retry [OF _ e [of 2]]; simp)
    apply (subst requestLoop_exhausted [OF _ e [of 3]]; simp)
    done
qed

theorem C1_retry_policy_witness:
  "request \<lparr>cfg_timeout = 30000, cfg_retryAttempts = 3\<rparr>
     (\<lambda>k. if k = 3 then Resolved \<lparr>resp_statusCode = 200, resp_json = None\<rparr>
          else Rejected ''TypeError'' ''fetch failed'') =
     (Inr \<lparr>resp_statusCode = 200, resp_json = None\<rparr>,
      [Attempt 1, Sleep 1000, Attempt 2, Sleep 2000, Attempt 3]) \<and>
   request \<lparr>cfg_timeout = 30000, cfg_retryAttempts = 3\<rparr>
     (\<lambda>k. Resolved \<lparr>resp_statusCode = 401, resp_json = None\<rparr>) =
     (Inl (AuthenticationError Unauthorized), [Attempt 1]) \<and>
   request \<lparr>cfg_timeout = 30000, cfg_retryAttempts = 3\<rparr>
     (\<lambda>k. Resolved \<lparr>resp_statusCode = 400, resp_json = None\<rparr>) =
     (Inl (ApiError 400 None), [Attempt 1]) \<and>
   request \<lparr>cfg_timeout = 30000, cfg_retryAttempts = 3\<rparr>
     (\<lambda>k. Resolved \<lparr>resp_statusCode = 500, resp_json = None\<rparr>) =
     (Inl (ApiError 500 None), [Attempt 1, Sleep 1000, Attempt 2, Sleep 2000, Attempt 3])"
  using C1_retry_policy
    [of "\<lparr>cfg_timeout = 30000, cfg_retryAttempts = 3\<rparr>"
        "\<lambda>k. if k = 3 then Resolved \<lparr>resp_statusCode = 200, resp_json = None\<rparr>
             else Rejected ''TypeError'' ''fetch failed''"
        "''TypeError''" "''fetch failed''" "''TypeError''" "''fetch failed''"
        "\<lparr>resp_statusCode = 200, resp_json = None\<rparr>"
        "\<lambda>k. Resolved \<lparr>resp_statusCode = 401, resp_json = None\<rparr>"
        "\<lparr>resp_statusCode = 401, resp_json = None\<rparr>"
        "\<lambda>k. Resolved \<lparr>resp_statusCode = 400, resp_json = None\<rparr>"
        "\<lparr>resp_statusCode = 400, resp_json = None\<rparr>"
        "\<lambda>k. Resolved \<lparr>resp_statusCode = 500, resp_json = None\<rparr>"
        "\<lambda>k. \<lparr>resp_statusCode = 500, resp_json = None\<rparr>"]
  by (simp add: isSuccess_def)

text \<open>Past the last allowed attempt the loop is over: what is thrown depends on \<open>lastError\<close>.\<close>

lemma requestLoop_over:
  "n < attempt \<Longrightarrow>
   requestLoop n exec attempt le tr =
     (case le of
        None \<Rightarrow> (Inl (NetworkError_connectionFailed None), tr)
      | Some e \<Rightarrow>
          if isNetworkError e \<or> isApiError e then (Inl e, tr)
          else (Inl (NetworkError_connectionFailed (Some e)), tr))"
  by (simp add: requestLoop.simps [of n exec attempt])

text \<open>
  When every attempt from \<open>a\<close> up to the one before the last fails with an error the
  loop retries, and the last attempt fails with any error \<open>e\<close>: an
  \<open>AuthenticationError\<close> or a client \<open>ApiError\<close> is thrown as it is from inside the
  loop, another \<open>ApiError\<close> or a \<open>NetworkError\<close> is thrown as it is after the loop, and
  anything else is wrapped.
\<close>

lemma requestLoop_last_any:
  assumes "a \<le> n"
    and "\<And>k. a \<le> k \<Longrightarrow> k < n \<Longrightarrow>
           \<exists>e'. attemptOutcome exec k = Inl e' \<and> \<not> isAuthenticationError e' \<and>
                \<not> (isApiError e' \<and> isClientError e')"
    and "attemptOutcome exec n = Inl e"
  shows "fst (requestLoop n exec a le tr) =
           Inl (if isAuthenticationError e \<or> isNetworkError e \<or> isApiError e then e
                else NetworkError_connectionFailed (Some e))"
  using assms(1,2)
proof (induction "nat (n - a)" arbitrary: a le tr)
  case 0
  then have an: "a = n" by simp
  have e: "attemptOutcome exec a = Inl e" using assms(3) an by simp
  show ?case
  proof (cases "isAuthenticationError e \<or> (isApiError e \<and> isClientError e)")
    case True
    have "requestLoop n exec a le tr = (Inl e, tr @ [Attempt a])"
      using an by (intro requestLoop_fatal [OF _ e True]) simp
    then show ?thesis using True by auto
  next
    case False
    then have "requestLoop n exec a le tr =
                 (Inl (if isNetworkError e \<or> isApiError e then e
                       else NetworkError_connectionFailed (Some e)),
                  tr @ [Attempt a])"
      by (intro requestLoop_exhausted [OF an e]) auto
    then show ?thesis using False by auto
  qed
next
  case (Suc m)
  then have lt: "a < n" by simp
  obtain e' where e': "attemptOutcome exec a = Inl e'" "\<not> isAuthenticationError e'"
      "\<not> (isApiError e' \<and> isClientError e')"
    using Suc.prems(2) [of a] lt by auto
  have m: "m = nat (n - (a + 1))" using Suc.hyps(2) by simp
  have le': "a + 1 \<le> n" using lt by simp
  have rest: "\<And>k. a + 1 \<le> k \<Longrightarrow> k < n \<Longrightarrow>
           \<exists>e'. attemptOutcome exec k = Inl e' \<and> \<not> isAuthenticationError e' \<and>
                \<not> (isApiError e' \<and> isClientError e')"
    using Suc.prems(2) by simp
  show ?case
    unfolding requestLoop_retry [OF lt e']
    by (rule Suc.hyps(1) [OF m le' rest])
qed

text \<open>
  An attempt enters the trace only after every attempt before it has failed with an
  error the loop retries.
\<close>

lemma attempt_made:
  assumes "Attempt j \<in> set (snd (requestLoop n exec a le tr))" and "Attempt j \<notin> set tr"
  shows "a \<le> j \<and> j \<le> n \<and>
         (\<forall>k. a \<le> k \<and> k < j \<longrightarrow>
            (\<exists>e'. attemptOutcome exec k = Inl e' \<and> \<not> isAuthenticationError e' \<and>
                  \<not> (isApiError e' \<and> isClientError e')))"
  using assms
proof (induction "nat (n + 1 - a)" arbitrary: a le tr)
  case 0
  then have "n < a" by simp
  then have "snd (requestLoop n exec a le tr) = tr"
    by (simp add: requestLoop_over split: option.splits)
  then show ?case using "0.prems" by simp
next
  case (Suc m)
  then have an: "a \<le> n" by simp
  have stop: "a \<le> j \<and> j \<le> n \<and>
         (\<forall>k. a \<le> k \<and> k < j \<longrightarrow>
            (\<exists>e'. attemptOutcome exec k = Inl e' \<and> \<not> isAuthenticationError e' \<and>
                  \<not> (isApiError e' \<and> isClientError e')))"
    if "snd (requestLoop n exec a le tr) = tr @ [Attempt a]"
  proof -
    have "j = a" using Suc.prems that by simp
    then show ?thesis using an by auto
  qed
  show ?case
  proof (cases "attemptOutcome exec a")
    case (Inr r)
    show ?thesis by (rule stop) (simp add: requestLoop_return [OF an Inr])
  next
    case (Inl e)
    show ?thesis
    proof (cases "isAuthenticationError e \<or> (isApiError e \<and> isClientError e)")
      case True
      show ?thesis by (rule stop) (simp add: requestLoop_fatal [OF an Inl True])
    next
      case False
      then have r: "\<not> isAuthenticationError e" "\<not> (isApiError e \<and> isClientError e)"
        by simp_all
      show ?thesis
      proof (cases "a < n")
        case False
        then have eq: "a = n" using an by simp
        have "snd (requestLoop n exec a le tr) = tr @ [Attempt a]"
          unfolding requestLoop_exhausted [OF eq Inl r] by simp
        then show ?thesis by (rule stop)
      next
        case True
        let ?tr = "tr @ [Attempt a, Sleep (2 ^ nat (a - 1) * 1000)]"
        have step: "requestLoop n exec a le tr = requestLoop n exec (a + 1) (Some e) ?tr"
          by (rule requestLoop_retry [OF True Inl r])
        show ?thesis
        proof (cases "j = a")
          case True
          then show ?thesis using an by auto
        next
          case False
          have m: "m = nat (n + 1 - (a + 1))" using Suc.hyps(2) by simp
          have in': "Attempt j \<in> set (snd (requestLoop n exec (a + 1) (Some e) ?tr))"
            using Suc.prems(1) step by simp
          have out': "Attempt j \<notin> set ?tr"
            using Suc.prems(2) False by simp
          have ih: "a + 1 \<le> j \<and> j \<le> n \<and>
                    (\<forall>k. a + 1 \<le> k \<and> k < j \<longrightarrow>
                       (\<exists>e'. attemptOutcome exec k = Inl e' \<and> \<not> isAuthenticationError e' \<and>
                             \<not> (isApiError e' \<and> isClientError e')))"
            by (rule Suc.hyps(1) [OF m in' out'])
          have "\<exists>e'. attemptOutcome exec k = Inl e' \<and> \<not> isAuthenticationError e' \<and>
                     \<not> (isApiError e' \<and> isClientError e')"
            if "a \<le> k \<and> k < j" for k
          proof (cases "k = a")
            case True
            then show ?thesis using Inl r by blast
          next
            case False
            then have "a + 1 \<le> k \<and> k < j" using that by simp
            then show ?thesis using ih by blast
          qed
          then show ?thesis using ih by simp
        qed
      qed
    qed
  qed
qed

text \<open>
  C9, as amended. When the last allowed attempt is made and fails with an error \<open>e\<close>,
  every attempt has failed, and the loop throws \<open>e\<close> itself if it is an
  \<open>AuthenticationError\<close>, a \<open>NetworkError\<close> or an \<open>ApiError\<close>, and otherwise a
  connection-failed \<open>NetworkError\<close> whose \<open>originalError\<close> is \<open>e\<close>. When no attempt is
  allowed, the loop throws a connection-failed \<open>NetworkError\<close> without \<open>originalError\<close>
  and makes no attempt.
\<close>

theorem C9_exhausted_raises:
  "(Attempt n \<in> set (snd (requestLoop n exec 1 None [])) \<and> attemptOutcome exec n = Inl e \<longrightarrow>
      (\<forall>k \<in> {1..n}. \<exists>e'. attemptOutcome exec k = Inl e') \<and>
      fst (requestLoop n exec 1 None []) =
        Inl (if isAuthenticationError e \<or> isNetworkError e \<or> isApiError e then e
             else NetworkError ConnectionFailed (Some e))) \<and>
   (n < 1 \<longrightarrow>
      requestLoop n exec 1 None [] = (Inl (NetworkError ConnectionFailed None), []))"
proof (intro conjI impI)
  assume a: "Attempt n \<in> set (snd (requestLoop n exec 1 None [])) \<and>
             attemptOutcome exec n = Inl e"
  have made: "1 \<le> n \<and> n \<le> n \<and>
         (\<forall>k. 1 \<le> k \<and> k < n \<longrightarrow>
            (\<exists>e'. attemptOutcome exec k = Inl e' \<and> \<not> isAuthenticationError e' \<and>
                  \<not> (isApiError e' \<and> isClientError e')))"
    using a by (intro attempt_made [of n n exec 1 None "[]"]) simp_all
  show "\<forall>k \<in> {1..n}. \<exists>e'. attemptOutcome exec k = Inl e'"
  proof
    fix k
    assume k: "k \<in> {1..n}"
    show "\<exists>e'. attemptOutcome exec k = Inl e'"
    proof (cases "k = n")
      case True
      then show ?thesis using a by blast
    next
      case False
      then have "1 \<le> k \<and> k < n" using k by simp
      then show ?thesis using made by blast
    qed
  qed
  have "fst (requestLoop n exec 1 None []) =
          Inl (if isAuthenticationError e \<or> isNetworkError e \<or> isApiError e then e
               else NetworkError_connectionFailed (Some e))"
    using made a by (intro requestLoop_last_any) auto
  then show "fst (requestLoop n exec 1 None []) =
        Inl (if isAuthenticationError e \<or> isNetworkError e \<or> isApiError e then e
             else NetworkError ConnectionFailed (Some e))"
    by (simp add: NetworkError_connectionFailed_def)
next
  assume "n < 1"
  then show "requestLoop n exec 1 None [] = (Inl (NetworkError ConnectionFailed None), [])"
    by (simp add: requestLoop_over NetworkError_connectionFailed_def)
qed

theorem C9_exhausted_raises_witness:
  "fst (requestLoop 3 unauthorizedAtLastExec 1 None []) =
     Inl (AuthenticationError Unauthorized) \<and>
   fst (requestLoop 2 brokenTransport 1 None []) =
     Inl (NetworkError ConnectionFailed (Some (PlainError ''TypeError'' ''boom''))) \<and>
   requestLoop 0 brokenTransport 1 None [] = (Inl (NetworkError ConnectionFailed None), [])"
proof -
  have h1: "Attempt 3 \<in> set (snd (requestLoop 3 unauthorizedAtLastExec 1 None [])) \<and>
            attemptOutcome unauthorizedAtLastExec 3 = Inl (AuthenticationError Unauthorized)"
    by code_simp
  have h2: "Attempt 2 \<in> set (snd (requestLoop 2 brokenTransport 1 None [])) \<and>
            attemptOutcome brokenTransport 2 = Inl (PlainError ''TypeError'' ''boom'')"
    by code_simp
  show ?thesis
    using C9_exhausted_raises [of 3 unauthorizedAtLastExec "AuthenticationError Unauthorized"]
      C9_exhausted_raises [of 2 brokenTransport "PlainError ''TypeError'' ''boom''"]
      C9_exhausted_raises [of 0 brokenTransport "PlainError ''TypeError'' ''boom''"]
      h1 h2
    by simp
qed

text \<open>
  C9 as stated fails: with three attempts allowed and the responses 500, 500, 401, every
  attempt fails and all three are made; the last failure is neither a \<open>NetworkError\<close>
  nor an \<open>ApiError\<close>, yet the \<open>AuthenticationError\<close> itself is thrown, not a
  connection-failed \<open>NetworkError\<close> around it.
\<close>

theorem C9_unauthorized_last_counterexample:
  "snd (request defaultConfig unauthorizedAtLast) =
     [Attempt 1, Sleep 1000, Attempt 2, Sleep 2000, Attempt 3] \<and>
   attemptOutcome unauthorizedAtLastExec 1 = Inl (ApiError 500 None) \<and>
   attemptOutcome unauthorizedAtLastExec 2 = Inl (ApiError 500 None) \<and>
   attemptOutcome unauthorizedAtLastExec 3 = Inl (AuthenticationError Unauthorized) \<and>
   \<not> isNetworkError (AuthenticationError Unauthorized) \<and>
   \<not> isApiError (AuthenticationError Unauthorized) \<and>
   fst (request defaultConfig unauthorizedAtLast) = Inl (AuthenticationError Unauthorized) \<and>
   fst (request defaultConfig unauthorizedAtLast) \<noteq>
     Inl (NetworkError ConnectionFailed (Some (AuthenticationError Unauthorized)))"
  by code_simp

text \<open>
  In the pipeline itself an attempt throws only the SDK's three classes, so when the
  last allowed attempt is made and fails, its own error is what \<open>request\<close> throws.
\<close>

lemma attempt_error_classes:
  assumes "attemptOutcome (\<lambda>a. executeRequest cfg (fetch a)) k = Inl e"
  shows "isNetworkError e \<or> isApiError e \<or> isAuthenticationError e"
proof (cases "fetch k")
  case (Resolved r)
  then have "handleResponse r = Inl e"
    using assms attemptOutcome_Resolved [where fetch = fetch and k = k] by simp
  then show ?thesis
    by (auto simp: handleResponse_def ApiError_fromResponse_def split: if_splits)
next
  case (Rejected n m)
  then obtain kind oe
    where "attemptOutcome (\<lambda>a. executeRequest cfg (fetch a)) k = Inl (NetworkError kind oe)"
    using attemptOutcome_Rejected [where fetch = fetch and k = k] by blast
  then show ?thesis using assms by auto
qed

lemma request_raises_last:
  assumes "Attempt (cfg_retryAttempts cfg) \<in> set (snd (request cfg fetch))"
    and "attemptOutcome (\<lambda>a. executeRequest cfg (fetch a)) (cfg_retryAttempts cfg) = Inl e"
  shows "fst (request cfg fetch) = Inl e"
proof -
  let ?exec = "\<lambda>a. executeRequest cfg (fetch a)"
  let ?n = "cfg_retryAttempts cfg"
  have made: "1 \<le> ?n \<and> ?n \<le> ?n \<and>
         (\<forall>k. 1 \<le> k \<and> k < ?n \<longrightarrow>
            (\<exists>e'. attemptOutcome ?exec k = Inl e' \<and> \<not> isAuthenticationError e' \<and>
                  \<not> (isApiError e' \<and> isClientError e')))"
    using assms(1) by (intro attempt_made [of ?n ?n ?exec 1 None "[]"]) (simp_all add: request_def)
  have "fst (requestLoop ?n ?exec 1 None []) =
          Inl (if isAuthenticationError e \<or> isNetworkError e \<or> isApiError e then e
               else NetworkError_connectionFailed (Some e))"
    using made assms(2) by (intro requestLoop_last_any) auto
  then show ?thesis
    using attempt_error_classes [OF assms(2)] by (auto simp: request_def)
qed


section \<open>The response cache\<close>

text \<open>
  C3, as amended. A value stored with \<open>ttlSeconds = 0\<close> at time \<open>t0\<close> is gone at the next
  \<open>get\<close> at any strictly later time (the call returns \<open>null\<close> and removes the entry), but
  a \<open>get\<close> in the same millisecond still returns it. A value stored with
  \<open>ttlSeconds = 3600\<close> (also the default) is returned unchanged, and the cache left as
  it is, up to and including its expiry time \<open>t0 + 3600000\<close>; after that the call
  returns \<open>null\<close> and removes the entry.
\<close>

theorem C3_cache_ttl:
  "(t0 < t \<longrightarrow>
      fst (getCachedResponse t key (cacheResponse t0 key v (Some 0) tm)) = None \<and>
      cache (snd (getCachedResponse t key (cacheResponse t0 key v (Some 0) tm))) key = None) \<and>
   (t = t0 \<longrightarrow>
      getCachedResponse t key (cacheResponse t0 key v (Some 0) tm) =
        (Some v, cacheResponse t0 key v (Some 0) tm)) \<and>
   (t \<le> t0 + 3600000 \<longrightarrow>
      getCachedResponse t key (cacheResponse t0 key v (Some 3600) tm) =
        (Some v, cacheResponse t0 key v (Some 3600) tm)) \<and>
   (t0 + 3600000 < t \<longrightarrow>
      fst (getCachedResponse t key (cacheResponse t0 key v (Some 3600) tm)) = None \<and>
      cache (snd (getCachedResponse t key (cacheResponse t0 key v (Some 3600) tm))) key = None) \<and>
   cacheResponse t0 key v None tm = cacheResponse t0 key v (Some 3600) tm"
  by (simp add: getCachedResponse_def cacheResponse_def Let_def)

theorem C3_cache_ttl_witness:
  "fst (getCachedResponse 1001 ''k'' (cacheResponse 1000 ''k'' (7::nat) (Some 0) newTokenManager))
     = None \<and>
   fst (getCachedResponse 1000 ''k'' (cacheResponse 1000 ''k'' (7::nat) (Some 0) newTokenManager))
     = Some 7 \<and>
   fst (getCachedResponse 3601000 ''k''
          (cacheResponse 1000 ''k'' (7::nat) (Some 3600) newTokenManager)) = Some 7 \<and>
   fst (getCachedResponse 3601001 ''k''
          (cacheResponse 1000 ''k'' (7::nat) (Some 3600) newTokenManager)) = None"
  using C3_cache_ttl [of 1000 1001 "''k''" "7::nat" newTokenManager]
    C3_cache_ttl [of 1000 1000 "''k''" "7::nat" newTokenManager]
    C3_cache_ttl [of 1000 3601000 "''k''" "7::nat" newTokenManager]
    C3_cache_ttl [of 1000 3601001 "''k''" "7::nat" newTokenManager]
  by simp

text \<open>
  C3 as stated fails: stored with \<open>ttlSeconds = 0\<close> at time 1000 and read at time 1000,
  the value is returned and the entry stays in the cache.
\<close>

theorem C3_cache_ttl_zero_counterexample:
  "fst (getCachedResponse 1000 ''k''
          (cacheResponse 1000 ''k'' (7::nat) (Some 0) newTokenManager)) = Some 7 \<and>
   cache (snd (getCachedResponse 1000 ''k''
                 (cacheResponse 1000 ''k'' (7::nat) (Some 0) newTokenManager))) ''k'' \<noteq> None"
  by (simp add: getCachedResponse_def cacheResponse_def newTokenManager_def Let_def)

section \<open>Validation runs\<close>

text \<open>
  C7. A second \<open>validate\<close> of the same document on the same validator throws the same
  error with the same error set (or returns as the first did) and leaves the same error
  set in the validator: nothing of the first run is kept. The same holds from any
  earlier state of the validator.
\<close>

theorem C7_validate_idempotent:
  "validate (snd (validate errors invoice)) invoice = validate errors invoice \<and>
   validate errors invoice = validate [] invoice"
  by (simp add: validate_def runValidation_def resetErrors_def)

theorem C7_validate_idempotent_witness:
  "validate (snd (validate [] (exampleInvoice\<lparr>inv_items := []\<rparr>)))
     (exampleInvoice\<lparr>inv_items := []\<rparr>) =
   validate [] (exampleInvoice\<lparr>inv_items := []\<rparr>)"
  using C7_validate_idempotent by blast

text \<open>
  C8. When \<open>validate\<close> throws on a document, \<open>signInvoice\<close> throws that same error and
  has made no transport call and no wait; so whenever its trace holds a transport call,
  validation had passed.
\<close>

theorem C8_fail_fast:
  "(fst (validate errors invoice) = Inl e \<longrightarrow>
      fst (signInvoice cfg fetch errors invoice) = Inl e \<and>
      fst (snd (signInvoice cfg fetch errors invoice)) = []) \<and>
   (Attempt k \<in> set (fst (snd (signInvoice cfg fetch errors invoice))) \<longrightarrow>
      fst (validate errors invoice) = Inr ())"
  by (auto simp: signInvoice_def split: prod.splits sum.splits option.splits if_splits)


theorem C8_fail_fast_witness:
  "fst (signInvoice \<lparr>cfg_timeout = 30000, cfg_retryAttempts = 3\<rparr>
          (\<lambda>k. Resolved \<lparr>resp_statusCode = 200, resp_json = None\<rparr>) []
          (exampleInvoice\<lparr>inv_items := []\<rparr>)) =
     Inl (ValidationError [(''items'', ''La facture doit contenir au moins un article'')]) \<and>
   fst (snd (signInvoice \<lparr>cfg_timeout = 30000, cfg_retryAttempts = 3\<rparr>
               (\<lambda>k. Resolved \<lparr>resp_statusCode = 200, resp_json = None\<rparr>) []
               (exampleInvoice\<lparr>inv_items := []\<rparr>))) = []"
proof -
  have v: "fst (validate [] (exampleInvoice\<lparr>inv_items := []\<rparr>)) =
             Inl (ValidationError
                    [(''items'', ''La facture doit contenir au moins un article'')])"
    by code_simp
  show ?thesis
    using C8_fail_fast
      [of "[]" "exampleInvoice\<lparr>inv_items := []\<rparr>"
          "ValidationError [(''items'', ''La facture doit contenir au moins un article'')]"
          "\<lparr>cfg_timeout = 30000, cfg_retryAttempts = 3\<rparr>"
          "\<lambda>k. Resolved \<lparr>resp_statusCode = 200, resp_json = None\<rparr>"] v
    by blast
qed

section \<open>The phone format\<close>

lemma isDigit_zero: "isDigit (CHR ''0'')"
  by (simp add: isDigit_def)

lemma not_isDigit_plus: "\<not> isDigit (CHR ''+'')"
  by (simp add: isDigit_def)

lemma take4_plus: "take 4 c = ''+225'' \<Longrightarrow> \<exists>t. c = CHR ''+'' # t"
  by (cases c) auto

lemma take3_not_plus: "take 3 c = ''225'' \<Longrightarrow> take 4 c \<noteq> ''+225''"
  by (cases c) auto

text \<open>
  Past the two prefixes, and apart from a zero followed by ten digits, the local pattern
  accepts exactly the texts of eight to ten digits.
\<close>

lemma matchesLocal_digits:
  assumes "\<not> (length c = 11 \<and> take 1 c = ''0'' \<and> list_all isDigit c)"
  shows "matchesLocal c = (list_all isDigit c \<and> 8 \<le> length c \<and> length c \<le> 10)"
proof (cases c)
  case Nil
  then show ?thesis by (simp add: matchesLocal_def)
next
  case (Cons x cs)
  show ?thesis
  proof (cases "x = CHR ''0'' \<and> list_all isDigit cs \<and> 8 \<le> length cs \<and> length cs \<le> 10")
    case True
    then have "length cs \<noteq> 10" using assms Cons by (auto simp: isDigit_zero)
    with True show ?thesis using Cons by (auto simp: matchesLocal_def isDigit_zero)
  next
    case False
    then show ?thesis using Cons by (auto simp: matchesLocal_def)
  qed
qed

text \<open>
  C5, as amended. For every phone text whose cleaned form is not a zero followed by ten
  digits, the validator accepts it if and only if the cleaned form is \<open>+225\<close> and exactly
  ten digits, or \<open>225\<close> and exactly ten digits, or eight to ten digits that do not begin
  with \<open>225\<close>.
\<close>

theorem C5_phone_accepts:
  assumes "\<not> (length (cleanPhoneNumber phone) = 11 \<and> take 1 (cleanPhoneNumber phone) = ''0'' \<and>
              list_all isDigit (cleanPhoneNumber phone))"
  shows "isValidPhone phone =
           ((take 4 (cleanPhoneNumber phone) = ''+225'' \<and>
             length (drop 4 (cleanPhoneNumber phone)) = 10 \<and>
             list_all isDigit (drop 4 (cleanPhoneNumber phone))) \<or>
            (take 3 (cleanPhoneNumber phone) = ''225'' \<and>
             length (drop 3 (cleanPhoneNumber phone)) = 10 \<and>
             list_all isDigit (drop 3 (cleanPhoneNumber phone))) \<or>
            (take 3 (cleanPhoneNumber phone) \<noteq> ''225'' \<and>
             list_all isDigit (cleanPhoneNumber phone) \<and>
             8 \<le> length (cleanPhoneNumber phone) \<and> length (cleanPhoneNumber phone) \<le> 10))"
proof -
  define c where "c = cleanPhoneNumber phone"
  have local: "matchesLocal c = (list_all isDigit c \<and> 8 \<le> length c \<and> length c \<le> 10)"
    using assms matchesLocal_digits [of c] by (simp add: c_def)
  have v: "isValidPhone phone =
             (if take 4 c = ''+225''
              then take 4 c = ''+225'' \<and> length (drop 4 c) = 10 \<and> list_all isDigit (drop 4 c)
              else if take 3 c = ''225''
              then take 3 c = ''225'' \<and> length (drop 3 c) = 10 \<and> list_all isDigit (drop 3 c)
              else matchesLocal c)"
  proof -
    have l4: "length ''+225'' = 4" and l3: "length ''225'' = 3" by simp_all
    show ?thesis
      unfolding isValidPhone_def startsWith_def l4 l3 Let_def c_def by (rule refl)
  qed
  consider (intl) "take 4 c = ''+225''" | (nat) "take 4 c \<noteq> ''+225''" "take 3 c = ''225''"
    | (loc) "take 4 c \<noteq> ''+225''" "take 3 c \<noteq> ''225''"
    by blast
  then have "isValidPhone phone =
           ((take 4 c = ''+225'' \<and> length (drop 4 c) = 10 \<and> list_all isDigit (drop 4 c)) \<or>
            (take 3 c = ''225'' \<and> length (drop 3 c) = 10 \<and> list_all isDigit (drop 3 c)) \<or>
            (take 3 c \<noteq> ''225'' \<and> list_all isDigit c \<and> 8 \<le> length c \<and> length c \<le> 10))"
  proof cases
    case intl
    then obtain t where t: "c = CHR ''+'' # t" using take4_plus by blast
    have "\<not> list_all isDigit c" using t by (simp add: not_isDigit_plus)
    moreover have "take 3 c \<noteq> ''225''" using t by simp
    ultimately show ?thesis using v intl by simp
  next
    case nat
    then show ?thesis using v by simp
  next
    case loc
    then show ?thesis using v local by simp
  qed
  then show ?thesis by (simp add: c_def)
qed

theorem C5_phone_accepts_witness:
  "isValidPhone ''07 09 12 34 56'' \<and> \<not> isValidPhone ''22512345''"
proof -
  have h1: "\<not> (length (cleanPhoneNumber ''07 09 12 34 56'') = 11 \<and>
               take 1 (cleanPhoneNumber ''07 09 12 34 56'') = ''0'' \<and>
               list_all isDigit (cleanPhoneNumber ''07 09 12 34 56''))"
    by code_simp
  have r1: "take 3 (cleanPhoneNumber ''07 09 12 34 56'') \<noteq> ''225'' \<and>
            list_all isDigit (cleanPhoneNumber ''07 09 12 34 56'') \<and>
            8 \<le> length (cleanPhoneNumber ''07 09 12 34 56'') \<and>
            length (cleanPhoneNumber ''07 09 12 34 56'') \<le> 10"
    by code_simp
  have h2: "\<not> (length (cleanPhoneNumber ''22512345'') = 11 \<and>
               take 1 (cleanPhoneNumber ''22512345'') = ''0'' \<and>
               list_all isDigit (cleanPhoneNumber ''22512345''))"
    by code_simp
  have r2: "take 4 (cleanPhoneNumber ''22512345'') \<noteq> ''+225'' \<and>
            length (drop 3 (cleanPhoneNumber ''22512345'')) \<noteq> 10 \<and>
            take 3 (cleanPhoneNumber ''22512345'') = ''225''"
    by code_simp
  show ?thesis
    using C5_phone_accepts [OF h1] C5_phone_accepts [OF h2] r1 r2 by simp
qed

text \<open>
  C5 as stated fails both ways: \<open>22512345\<close> is a bare number of eight digits and is
  refused, because it begins with \<open>225\<close> and is not \<open>225\<close> and ten digits; and
  \<open>01234567890\<close>, eleven digits, is accepted.
\<close>

theorem C5_phone_counterexample:
  "\<not> isValidPhone ''22512345'' \<and> spec_phone_accepts (cleanPhoneNumber ''22512345'') \<and>
   isValidPhone ''01234567890'' \<and> \<not> spec_phone_accepts (cleanPhoneNumber ''01234567890'')"
  by code_simp


section \<open>Serialisation\<close>

lemma item_discount_key:
  "map_of (InvoiceItem_toArray item) ''discount'' =
     (if js_gt (it_discount item) (Num 0) then Some (JNumber (it_discount item)) else None)"
  by (simp add: InvoiceItem_toArray_def setProp_def Let_def update_conv'
      split: option.splits)

lemma item_customTaxes_key:
  "map_of (InvoiceItem_toArray item) ''customTaxes'' =
     (if it_customTaxes item \<noteq> [] then Some (JArray (map CustomTax_toArray (it_customTaxes item)))
      else None)"
  by (simp add: InvoiceItem_toArray_def setProp_def Let_def update_conv'
      split: option.splits)

lemma map_of_setIfTruthy:
  "map_of (setIfTruthy k field obj) k' =
     (if k' = k \<and> truthy field then map_option JString field else map_of obj k')"
  by (cases field) (simp_all add: setIfTruthy_def setProp_def update_conv')

lemma invoice_discount_key:
  "map_of (Invoice_toArray invoice) ''discount'' =
     (if js_gt (inv_discount invoice) (Num 0) then Some (JNumber (inv_discount invoice))
      else None)"
  by (simp add: Invoice_toArray_def setProp_def Let_def update_conv' map_of_setIfTruthy)

lemma invoice_customTaxes_key:
  "map_of (Invoice_toArray invoice) ''customTaxes'' =
     (if inv_customTaxes invoice \<noteq> []
      then Some (JArray (map CustomTax_toArray (inv_customTaxes invoice))) else None)"
  by (simp add: Invoice_toArray_def setProp_def Let_def update_conv' map_of_setIfTruthy)

lemma invoice_items_key:
  "map_of (Invoice_toArray invoice) ''items'' =
     Some (JArray (map (\<lambda>item. JObject (InvoiceItem_toArray item)) (inv_items invoice)))"
  by (simp add: Invoice_toArray_def setProp_def Let_def update_conv' map_of_setIfTruthy)

lemma invoice_currency_keys:
  "map_of (Invoice_toArray invoice) ''foreignCurrency'' =
     Some (JString (case inv_foreignCurrency invoice of None \<Rightarrow> [] | Some c \<Rightarrow> c))"
  "map_of (Invoice_toArray invoice) ''foreignCurrencyRate'' =
     Some (JNumber (if truthy (inv_foreignCurrency invoice)
                    then inv_foreignCurrencyRate invoice else Num 0))"
  by (auto simp: Invoice_toArray_def setProp_def Let_def update_conv' map_of_setIfTruthy
      split: option.splits)

lemma no_key_iff: "k \<notin> fst ` set al \<longleftrightarrow> map_of al k = None"
  by (simp add: map_of_eq_None_iff)

text \<open>
  C6. An item with discount 10 serialises with \<open>discount: 10\<close>; a custom tax named DTD
  of amount 1000, on an item or on the document, is an entry of the serialised
  \<open>customTaxes\<close>, and every item of the document is an entry of the serialised \<open>items\<close>;
  an item or a document with discount 0 has no \<open>discount\<close> key; and the serialised
  document always has both \<open>foreignCurrency\<close> and \<open>foreignCurrencyRate\<close>: the stored
  values when a currency is set, the empty string and 0 when none is.
\<close>

theorem C6_serialization:
  "(it_discount item = Num 10 \<longrightarrow>
      map_of (InvoiceItem_toArray item) ''discount'' = Some (JNumber (Num 10))) \<and>
   (tax \<in> set (it_customTaxes item) \<and> ct_name tax = ''DTD'' \<and> ct_amount tax = Num 1000 \<longrightarrow>
      (\<exists>ts. map_of (InvoiceItem_toArray item) ''customTaxes'' = Some (JArray ts) \<and>
            JObject [(''name'', JString ''DTD''), (''amount'', JNumber (Num 1000))] \<in> set ts)) \<and>
   (dtax \<in> set (inv_customTaxes invoice) \<and> ct_name dtax = ''DTD'' \<and>
    ct_amount dtax = Num 1000 \<longrightarrow>
      (\<exists>ts. map_of (Invoice_toArray invoice) ''customTaxes'' = Some (JArray ts) \<and>
            JObject [(''name'', JString ''DTD''), (''amount'', JNumber (Num 1000))] \<in> set ts)) \<and>
   (ditem \<in> set (inv_items invoice) \<longrightarrow>
      (\<exists>js. map_of (Invoice_toArray invoice) ''items'' = Some (JArray js) \<and>
            JObject (InvoiceItem_toArray ditem) \<in> set js)) \<and>
   (it_discount item = Num 0 \<longrightarrow> ''discount'' \<notin> fst ` set (InvoiceItem_toArray item)) \<and>
   (inv_discount invoice = Num 0 \<longrightarrow> ''discount'' \<notin> fst ` set (Invoice_toArray invoice)) \<and>
   (inv_foreignCurrency invoice = Some currency \<and> currency \<noteq> [] \<longrightarrow>
      map_of (Invoice_toArray invoice) ''foreignCurrency'' = Some (JString currency) \<and>
      map_of (Invoice_toArray invoice) ''foreignCurrencyRate'' =
        Some (JNumber (inv_foreignCurrencyRate invoice))) \<and>
   (\<not> truthy (inv_foreignCurrency invoice) \<longrightarrow>
      map_of (Invoice_toArray invoice) ''foreignCurrency'' = Some (JString []) \<and>
      map_of (Invoice_toArray invoice) ''foreignCurrencyRate'' = Some (JNumber (Num 0)))"
proof (intro conjI impI)
  assume "it_discount item = Num 10"
  then show "map_of (InvoiceItem_toArray item) ''discount'' = Some (JNumber (Num 10))"
    by (simp add: item_discount_key js_gt_def)
next
  assume a: "tax \<in> set (it_customTaxes item) \<and> ct_name tax = ''DTD'' \<and>
             ct_amount tax = Num 1000"
  then have ne: "it_customTaxes item \<noteq> []" by auto
  have "CustomTax_toArray tax =
          JObject [(''name'', JString ''DTD''), (''amount'', JNumber (Num 1000))]"
    using a by (simp add: CustomTax_toArray_def)
  then have "JObject [(''name'', JString ''DTD''), (''amount'', JNumber (Num 1000))]
               \<in> set (map CustomTax_toArray (it_customTaxes item))"
    using a by (metis image_eqI set_map)
  then show "\<exists>ts. map_of (InvoiceItem_toArray item) ''customTaxes'' = Some (JArray ts) \<and>
            JObject [(''name'', JString ''DTD''), (''amount'', JNumber (Num 1000))] \<in> set ts"
    using ne by (simp add: item_customTaxes_key)
next
  assume a: "dtax \<in> set (inv_customTaxes invoice) \<and> ct_name dtax = ''DTD'' \<and>
             ct_amount dtax = Num 1000"
  then have ne: "inv_customTaxes invoice \<noteq> []" by auto
  have "CustomTax_toArray dtax =
          JObject [(''name'', JString ''DTD''), (''amount'', JNumber (Num 1000))]"
    using a by (simp add: CustomTax_toArray_def)
  then have "JObject [(''name'', JString ''DTD''), (''amount'', JNumber (Num 1000))]
               \<in> set (map CustomTax_toArray (inv_customTaxes invoice))"
    using a by (metis image_eqI set_map)
  then show "\<exists>ts. map_of (Invoice_toArray invoice) ''customTaxes'' = Some (JArray ts) \<and>
            JObject [(''name'', JString ''DTD''), (''amount'', JNumber (Num 1000))] \<in> set ts"
    using ne by (simp add: invoice_customTaxes_key)
next
  assume "ditem \<in> set (inv_items invoice)"
  then show "\<exists>js. map_of (Invoice_toArray invoice) ''items'' = Some (JArray js) \<and>
            JObject (InvoiceItem_toArray ditem) \<in> set js"
    by (simp add: invoice_items_key)
next
  assume "it_discount item = Num 0"
  then show "''discount'' \<notin> fst ` set (InvoiceItem_toArray item)"
    by (simp add: no_key_iff item_discount_key js_gt_def)
next
  assume "inv_discount invoice = Num 0"
  then show "''discount'' \<notin> fst ` set (Invoice_toArray invoice)"
    by (simp add: no_key_iff invoice_discount_key js_gt_def)
next
  assume "inv_foreignCurrency invoice = Some currency \<and> currency \<noteq> []"
  then show "map_of (Invoice_toArray invoice) ''foreignCurrency'' = Some (JString currency)"
    and "map_of (Invoice_toArray invoice) ''foreignCurrencyRate'' =
        Some (JNumber (inv_foreignCurrencyRate invoice))"
    by (simp_all add: invoice_currency_keys)
next
  assume "\<not> truthy (inv_foreignCurrency invoice)"
  then show "map_of (Invoice_toArray invoice) ''foreignCurrency'' = Some (JString [])"
    and "map_of (Invoice_toArray invoice) ''foreignCurrencyRate'' = Some (JNumber (Num 0))"
    by (auto simp: invoice_currency_keys split: option.splits)
qed

theorem C6_serialization_witness:
  "map_of (InvoiceItem_toArray discountedItem) ''discount'' = Some (JNumber (Num 10)) \<and>
   (\<exists>ts. map_of (InvoiceItem_toArray discountedItem) ''customTaxes'' = Some (JArray ts) \<and>
         JObject [(''name'', JString ''DTD''), (''amount'', JNumber (Num 1000))] \<in> set ts) \<and>
   (\<exists>ts. map_of (Invoice_toArray exportInvoice) ''customTaxes'' = Some (JArray ts) \<and>
         JObject [(''name'', JString ''DTD''), (''amount'', JNumber (Num 1000))] \<in> set ts) \<and>
   (\<exists>js. map_of (Invoice_toArray exportInvoice) ''items'' = Some (JArray js) \<and>
         JObject (InvoiceItem_toArray discountedItem) \<in> set js) \<and>
   ''discount'' \<notin> fst ` set (InvoiceItem_toArray exampleItem) \<and>
   ''discount'' \<notin> fst ` set (Invoice_toArray exampleInvoice) \<and>
   map_of (Invoice_toArray exportInvoice) ''foreignCurrency'' = Some (JString ''EUR'') \<and>
   map_of (Invoice_toArray exportInvoice) ''foreignCurrencyRate'' =
     Some (JNumber (Num (655957 / 1000))) \<and>
   map_of (Invoice_toArray exampleInvoice) ''foreignCurrency'' = Some (JString []) \<and>
   map_of (Invoice_toArray exampleInvoice) ''foreignCurrencyRate'' = Some (JNumber (Num 0))"
proof -
  have h1: "it_discount discountedItem = Num 10"
    and h2: "dtdTax \<in> set (it_customTaxes discountedItem) \<and> ct_name dtdTax = ''DTD'' \<and>
             ct_amount dtdTax = Num 1000"
    and h3: "dtdTax \<in> set (inv_customTaxes exportInvoice)"
    and h4: "discountedItem \<in> set (inv_items exportInvoice)"
    and h5: "inv_foreignCurrency exportInvoice = Some ''EUR'' \<and> ''EUR'' \<noteq> []"
    and h6: "inv_foreignCurrencyRate exportInvoice = Num (655957 / 1000)"
    by (simp_all add: discountedItem_def dtdTax_def exportInvoice_def)
  have g1: "it_discount exampleItem = Num 0"
    and g2: "inv_discount exampleInvoice = Num 0"
    and g3: "\<not> truthy (inv_foreignCurrency exampleInvoice)"
    by (simp_all add: exampleItem_def exampleInvoice_def)
  show ?thesis
    using C6_serialization [of discountedItem dtdTax dtdTax exportInvoice discountedItem "''EUR''"]
      C6_serialization [of exampleItem dtdTax dtdTax exampleInvoice discountedItem "''EUR''"]
      h1 h2 h3 h4 h5 h6 g1 g2 g3
    by simp
qed


section \<open>What the validator's methods do to the error set\<close>

lemma keys_addError: "fst ` set (addError f m e) = insert f (fst ` set e)"
  by (simp add: addError_def dom_update)

lemma map_of_addError: "map_of (addError f m e) = (map_of e)(f \<mapsto> m)"
  by (simp add: addError_def update_conv')

lemma distinct_addError: "distinct (map fst e) \<Longrightarrow> distinct (map fst (addError f m e))"
  by (simp add: addError_def distinct_update)

lemma startsWith_prefix: "startsWith (a @ b) a"
  by (simp add: startsWith_def)

lemma startsWith_append: "startsWith f (a @ b) \<Longrightarrow> startsWith f a"
proof -
  assume "startsWith f (a @ b)"
  then have "take (length (a @ b)) f = a @ b" by (simp add: startsWith_def)
  then have "take (length a) (take (length (a @ b)) f) = take (length a) (a @ b)" by simp
  then show ?thesis by (simp add: startsWith_def min_def)
qed

text \<open>
  Every method changes the error set only through \<open>addError\<close>, at its own field. So a
  property that \<open>addError\<close> keeps at that field is kept by the method.
\<close>

lemma validateRequired_inv:
  "(\<And>m e'. P e' \<Longrightarrow> P (addError f m e')) \<Longrightarrow> P e \<Longrightarrow> P (snd (validateRequired f v n e))"
  by (auto simp: validateRequired_def Let_def split: option.splits)

lemma validateInArray_inv:
  "(\<And>m e'. P e' \<Longrightarrow> P (addError f m e')) \<Longrightarrow> P e \<Longrightarrow> P (snd (validateInArray f v a n e))"
  by (auto simp: validateInArray_def Let_def)

lemma validatePhone_inv:
  "(\<And>m e'. P e' \<Longrightarrow> P (addError f m e')) \<Longrightarrow> P e \<Longrightarrow> P (snd (validatePhone f v e))"
  by (auto simp: validatePhone_def)

lemma validateEmail_inv:
  "(\<And>m e'. P e' \<Longrightarrow> P (addError f m e')) \<Longrightarrow> P e \<Longrightarrow> P (snd (validateEmail f v e))"
  by (auto simp: validateEmail_def)

lemma validateNcc_inv:
  "(\<And>m e'. P e' \<Longrightarrow> P (addError f m e')) \<Longrightarrow> P e \<Longrightarrow> P (snd (validateNcc f v e))"
  by (auto simp: validateNcc_def)

lemma if_inv: "(c \<Longrightarrow> P a) \<Longrightarrow> (\<not> c \<Longrightarrow> P b) \<Longrightarrow> P (if c then a else b)"
  by simp

lemma forEachFrom_inv:
  "(\<And>x i s. P s \<Longrightarrow> P (f x i s)) \<Longrightarrow> P s \<Longrightarrow> P (forEachFrom f i xs s)"
  by (induction xs arbitrary: i s) auto

lemma forEach_inv:
  "(\<And>x i s. P s \<Longrightarrow> P (f x i s)) \<Longrightarrow> P s \<Longrightarrow> P (forEach f xs s)"
  unfolding forEach_def by (rule forEachFrom_inv)

lemma validateBaseFields_inv:
  assumes step: "\<And>f m e'. f \<in> set [''invoiceType'', ''paymentMethod'', ''template'',
                                     ''pointOfSale'', ''establishment''] \<Longrightarrow>
                           P e' \<Longrightarrow> P (addError f m e')"
    and e: "P e"
  shows "P (validateBaseFields invoice e)"
  unfolding validateBaseFields_def Let_def
  by (intro validateRequired_inv [where P = P] validateInArray_inv [where P = P] step e)
     simp_all

lemma validateClientFields_inv:
  assumes step: "\<And>f m e'. f \<in> set [''clientCompanyName'', ''clientPhone'', ''clientEmail''] \<Longrightarrow>
                           P e' \<Longrightarrow> P (addError f m e')"
    and e: "P e"
  shows "P (validateClientFields invoice e)"
proof -
  have s1: "\<And>m e'. P e' \<Longrightarrow> P (addError ''clientCompanyName'' m e')"
    and s2: "\<And>m e'. P e' \<Longrightarrow> P (addError ''clientPhone'' m e')"
    and s3: "\<And>m e'. P e' \<Longrightarrow> P (addError ''clientEmail'' m e')"
    using step by simp_all
  show ?thesis
    unfolding validateClientFields_def Let_def
    by (auto intro!: validateRequired_inv [where P = P] validatePhone_inv [where P = P]
          validateEmail_inv [where P = P] s1 s2 s3 e)
qed

lemma validateTemplateRules_inv:
  assumes step: "\<And>f m e'. f \<in> set [''clientNcc'', ''foreignCurrency'', ''foreignCurrencyRate''] \<Longrightarrow>
                           P e' \<Longrightarrow> P (addError f m e')"
    and e: "P e"
  shows "P (validateTemplateRules invoice e)"
proof -
  have s1: "\<And>m e'. P e' \<Longrightarrow> P (addError ''clientNcc'' m e')"
    and s2: "\<And>m e'. P e' \<Longrightarrow> P (addError ''foreignCurrency'' m e')"
    and s3: "\<And>m e'. P e' \<Longrightarrow> P (addError ''foreignCurrencyRate'' m e')"
    using step by simp_all
  show ?thesis
    unfolding validateTemplateRules_def Let_def
    by (auto intro!: validateNcc_inv [where P = P] validateInArray_inv [where P = P]
          s1 s2 s3 e split: option.splits)
qed

lemma validateCustomTax_inv:
  assumes step: "\<And>f m e'. startsWith f (pre @ ''customTaxes['') \<Longrightarrow> P e' \<Longrightarrow> P (addError f m e')"
    and e: "P e"
  shows "P (validateCustomTax pre customTax taxIndex e)"
proof -
  have s: "\<And>suffix m e'. P e' \<Longrightarrow> P (addError (pre @ ''customTaxes['' @ suffix) m e')"
  proof -
    fix suffix m e'
    assume p: "P e'"
    have "startsWith ((pre @ ''customTaxes['') @ suffix) (pre @ ''customTaxes['')"
      by (rule startsWith_prefix)
    then have "startsWith (pre @ ''customTaxes['' @ suffix) (pre @ ''customTaxes['')"
      by simp
    then show "P (addError (pre @ ''customTaxes['' @ suffix) m e')"
      using step p by blast
  qed
  show ?thesis
    unfolding validateCustomTax_def Let_def
    by (intro if_inv [where P = P] s e)
qed


lemma itemLevel_prefixed: "itemLevel ((''items['' @ x) @ y)"
  by (simp add: itemLevel_def startsWith_def)

lemma validateItem_inv:
  assumes step: "\<And>f m e'. itemLevel f \<Longrightarrow> P e' \<Longrightarrow> P (addError f m e')"
    and e: "P e"
  shows "P (validateItem item index invoiceType e)"
proof -
  have s: "\<And>x y m e'. P e' \<Longrightarrow> P (addError ((''items['' @ x) @ y) m e')"
    using step itemLevel_prefixed by blast
  have t: "\<And>x f m e'. startsWith f (((''items['' @ x) @ ''.'') @ ''customTaxes['') \<Longrightarrow>
                        P e' \<Longrightarrow> P (addError f m e')"
  proof -
    fix x f m e'
    assume a: "startsWith f (((''items['' @ x) @ ''.'') @ ''customTaxes['')" and p: "P e'"
    have "startsWith f ''items[''"
      using a by (intro startsWith_append [of f "''items[''"]) simp
    then show "P (addError f m e')" using step p by (simp add: itemLevel_def)
  qed
  show ?thesis
    unfolding validateItem_def Let_def
    by (intro if_inv [where P = P] s e forEach_inv [where P = P] validateCustomTax_inv [where P = P] t)
qed

lemma validateItems_inv:
  assumes step: "\<And>f m e'. f = ''items'' \<or> itemLevel f \<Longrightarrow> P e' \<Longrightarrow> P (addError f m e')"
    and e: "P e"
  shows "P (validateItems invoice e)"
proof -
  have s: "\<And>m e'. P e' \<Longrightarrow> P (addError ''items'' m e')"
    and t: "\<And>f m e'. itemLevel f \<Longrightarrow> P e' \<Longrightarrow> P (addError f m e')"
    using step by simp_all
  show ?thesis
    unfolding validateItems_def Let_def
    by (intro if_inv [where P = P] s e forEach_inv [where P = P] validateItem_inv [where P = P] t)
qed

lemma validateOptionalFields_inv:
  assumes step: "\<And>f m e'. f \<in> set [''foreignCurrency'', ''discount'', ''rne''] \<or>
                           startsWith f ''customTaxes['' \<Longrightarrow>
                           P e' \<Longrightarrow> P (addError f m e')"
    and e: "P e"
  shows "P (validateOptionalFields invoice e)"
proof -
  have s1: "\<And>m e'. P e' \<Longrightarrow> P (addError ''foreignCurrency'' m e')"
    and s2: "\<And>m e'. P e' \<Longrightarrow> P (addError ''discount'' m e')"
    and s3: "\<And>m e'. P e' \<Longrightarrow> P (addError ''rne'' m e')"
    and t: "\<And>f m e'. startsWith f ([] @ ''customTaxes['') \<Longrightarrow> P e' \<Longrightarrow> P (addError f m e')"
    using step by simp_all
  have c: "P (case inv_foreignCurrency invoice of
               None \<Rightarrow> e
             | Some currency \<Rightarrow>
                 if currency \<noteq> [] \<and> currency \<notin> set ALLOWED_CURRENCIES
                 then addError ''foreignCurrency''
                        (''Devise invalide: '' @ currency @ ''. Valeurs accept'' @ e_acute @
                         ''es: '' @ join '', '' ALLOWED_CURRENCIES)
                        e
                 else e)"
    by (cases "inv_foreignCurrency invoice") (simp_all add: e s1)
  show ?thesis
    unfolding validateOptionalFields_def Let_def
    by (intro if_inv [where P = P] s2 s3 c forEach_inv [where P = P] validateCustomTax_inv [where P = P] t)
qed


text \<open>The whole run keeps whatever \<open>addError\<close> keeps at every field.\<close>

lemma runValidation_inv:
  assumes step: "\<And>f m e'. P e' \<Longrightarrow> P (addError f m e')"
    and nil: "P []"
  shows "P (runValidation errors invoice)"
  unfolding runValidation_def resetErrors_def
  by (intro validateOptionalFields_inv [where P = P] validateItems_inv [where P = P]
        validateTemplateRules_inv [where P = P] validateClientFields_inv [where P = P]
        validateBaseFields_inv [where P = P] step nil)

lemma distinct_runValidation: "distinct (map fst (runValidation errors invoice))"
  by (rule runValidation_inv [where P = "\<lambda>e. distinct (map fst e)"])
     (simp_all add: distinct_addError)

text \<open>The later phases never remove a key.\<close>

lemma key_kept_validateItems:
  "k \<in> fst ` set e \<Longrightarrow> k \<in> fst ` set (validateItems invoice e)"
  by (rule validateItems_inv [where P = "\<lambda>e. k \<in> fst ` set e"])
     (simp_all add: keys_addError)

lemma key_kept_validateOptionalFields:
  "k \<in> fst ` set e \<Longrightarrow> k \<in> fst ` set (validateOptionalFields invoice e)"
  by (rule validateOptionalFields_inv [where P = "\<lambda>e. k \<in> fst ` set e"])
     (simp_all add: keys_addError)

lemma key_after_template_kept:
  "k \<in> fst ` set (validateTemplateRules invoice e) \<Longrightarrow>
   k \<in> fst ` set
         (validateOptionalFields invoice (validateItems invoice (validateTemplateRules invoice e)))"
  by (intro key_kept_validateOptionalFields key_kept_validateItems)

lemma throws_when_key:
  "k \<in> fst ` set (runValidation errors invoice) \<Longrightarrow>
   fst (validate errors invoice) = Inl (ValidationError (runValidation errors invoice))"
  by (cases "runValidation errors invoice")
     (auto simp: validate_def throwIfErrors_def hasErrors_def Let_def)

section \<open>The rules of the export regime\<close>

lemma template_currency_key:
  assumes "inv_template invoice = ''B2F''" and "\<not> truthy (inv_foreignCurrency invoice)"
  shows "''foreignCurrency'' \<in> fst ` set (validateTemplateRules invoice e)"
  using assms
  by (cases "inv_foreignCurrency invoice")
     (simp_all add: validateTemplateRules_def Let_def keys_addError)

lemma template_rate_key:
  assumes "inv_template invoice = ''B2F''" and "truthy (inv_foreignCurrency invoice)"
    and "js_le (inv_foreignCurrencyRate invoice) (Num 0)"
  shows "''foreignCurrencyRate'' \<in> fst ` set (validateTemplateRules invoice e)"
  using assms
  by (cases "inv_foreignCurrency invoice")
     (simp_all add: validateTemplateRules_def Let_def keys_addError)

text \<open>
  An export invoice with a currency outside the allowed list and a rate of 0: both keys
  are in the one error set.
\<close>

lemma both_currency_errors:
  "validate []
     (exportInvoice\<lparr>inv_foreignCurrency := Some ''XYZ'', inv_foreignCurrencyRate := Num 0\<rparr>) =
   (Inl (ValidationError
           [(''foreignCurrency'',
             ''Devise invalide: XYZ. Valeurs accept'' @ e_acute @
             ''es: XOF, USD, EUR, GBP, JPY, CAD, AUD, CNH, CHF, HKD, NZD''),
            (''foreignCurrencyRate'',
             ''Le taux de change doit '' @ e_circ @ ''tre sup'' @ e_acute @ ''rieur '' @
             a_grave @ '' 0 pour les factures B2F'')]),
    [(''foreignCurrency'',
      ''Devise invalide: XYZ. Valeurs accept'' @ e_acute @
      ''es: XOF, USD, EUR, GBP, JPY, CAD, AUD, CNH, CHF, HKD, NZD''),
     (''foreignCurrencyRate'',
      ''Le taux de change doit '' @ e_circ @ ''tre sup'' @ e_acute @ ''rieur '' @
      a_grave @ '' 0 pour les factures B2F'')])"
  by code_simp

text \<open>
  C2. For every export-regime (B2F) document: without a foreign currency, \<open>validate\<close>
  throws an error set with the key \<open>foreignCurrency\<close>; with a currency and a rate that
  is at most 0, it throws an error set with the key \<open>foreignCurrencyRate\<close>. And some
  B2F document has both keys in its one error set.
\<close>

theorem C2_export_rules:
  "(inv_template invoice = ''B2F'' \<and> \<not> truthy (inv_foreignCurrency invoice) \<longrightarrow>
      (\<exists>errs. fst (validate errors invoice) = Inl (ValidationError errs) \<and>
              ''foreignCurrency'' \<in> fst ` set errs)) \<and>
   (inv_template invoice2 = ''B2F'' \<and> truthy (inv_foreignCurrency invoice2) \<and>
    js_le (inv_foreignCurrencyRate invoice2) (Num 0) \<longrightarrow>
      (\<exists>errs. fst (validate errors invoice2) = Inl (ValidationError errs) \<and>
              ''foreignCurrencyRate'' \<in> fst ` set errs)) \<and>
   (\<exists>invoice3 errs. inv_template invoice3 = ''B2F'' \<and>
      fst (validate errors invoice3) = Inl (ValidationError errs) \<and>
      ''foreignCurrency'' \<in> fst ` set errs \<and> ''foreignCurrencyRate'' \<in> fst ` set errs)"
proof (intro conjI impI)
  assume a: "inv_template invoice = ''B2F'' \<and> \<not> truthy (inv_foreignCurrency invoice)"
  have k: "''foreignCurrency'' \<in> fst ` set (runValidation errors invoice)"
    unfolding runValidation_def
    using a by (intro key_after_template_kept template_currency_key) simp_all
  show "\<exists>errs. fst (validate errors invoice) = Inl (ValidationError errs) \<and>
              ''foreignCurrency'' \<in> fst ` set errs"
    using throws_when_key [OF k] k by blast
next
  assume a: "inv_template invoice2 = ''B2F'' \<and> truthy (inv_foreignCurrency invoice2) \<and>
             js_le (inv_foreignCurrencyRate invoice2) (Num 0)"
  have k: "''foreignCurrencyRate'' \<in> fst ` set (runValidation errors invoice2)"
    unfolding runValidation_def
    using a by (intro key_after_template_kept template_rate_key) simp_all
  show "\<exists>errs. fst (validate errors invoice2) = Inl (ValidationError errs) \<and>
              ''foreignCurrencyRate'' \<in> fst ` set errs"
    using throws_when_key [OF k] k by blast
next
  let ?d = "exportInvoice\<lparr>inv_foreignCurrency := Some ''XYZ'', inv_foreignCurrencyRate := Num 0\<rparr>"
  have t: "inv_template ?d = ''B2F''"
    by (simp add: exportInvoice_def exampleInvoice_def)
  have v: "validate errors ?d = validate [] ?d"
    by (simp add: validate_def runValidation_def resetErrors_def)
  show "\<exists>invoice3 errs. inv_template invoice3 = ''B2F'' \<and>
      fst (validate errors invoice3) = Inl (ValidationError errs) \<and>
      ''foreignCurrency'' \<in> fst ` set errs \<and> ''foreignCurrencyRate'' \<in> fst ` set errs"
    apply (rule exI [of _ ?d])
    apply (simp only: v both_currency_errors t)
    apply simp
    done
qed

theorem C2_export_rules_witness:
  "(\<exists>errs. fst (validate [] (exportInvoice\<lparr>inv_foreignCurrency := None\<rparr>)) =
             Inl (ValidationError errs) \<and> ''foreignCurrency'' \<in> fst ` set errs) \<and>
   (\<exists>errs. fst (validate [] (exportInvoice\<lparr>inv_foreignCurrencyRate := Num 0\<rparr>)) =
             Inl (ValidationError errs) \<and> ''foreignCurrencyRate'' \<in> fst ` set errs)"
proof -
  have h1: "inv_template (exportInvoice\<lparr>inv_foreignCurrency := None\<rparr>) = ''B2F'' \<and>
            \<not> truthy (inv_foreignCurrency (exportInvoice\<lparr>inv_foreignCurrency := None\<rparr>))"
    by (simp add: exportInvoice_def exampleInvoice_def)
  have h2: "inv_template (exportInvoice\<lparr>inv_foreignCurrencyRate := Num 0\<rparr>) = ''B2F'' \<and>
            truthy (inv_foreignCurrency (exportInvoice\<lparr>inv_foreignCurrencyRate := Num 0\<rparr>)) \<and>
            js_le (inv_foreignCurrencyRate (exportInvoice\<lparr>inv_foreignCurrencyRate := Num 0\<rparr>))
              (Num 0)"
    by (simp add: exportInvoice_def exampleInvoice_def)
  show ?thesis
    using C2_export_rules
      [of "exportInvoice\<lparr>inv_foreignCurrency := None\<rparr>" "[]"
          "exportInvoice\<lparr>inv_foreignCurrencyRate := Num 0\<rparr>"] h1 h2
    by blast
qed


text \<open>
  For an export document the two keys are in the error set exactly in these cases: the
  rate key when a currency is set and the rate is at most 0; the currency key when no
  currency is set or the one set is outside the allowed list. So both are there exactly
  when a currency outside the allowed list comes with a rate that is at most 0.
\<close>

lemma key_absent_kept:
  assumes "k \<notin> fst ` set e"
    and "k \<noteq> ''items''" and "\<not> itemLevel k" and "\<not> startsWith k ''customTaxes[''"
    and "k \<notin> set [''discount'', ''rne'']"
    and "k = ''foreignCurrency'' \<longrightarrow>
           \<not> (truthy (inv_foreignCurrency invoice) \<and>
              (case inv_foreignCurrency invoice of None \<Rightarrow> [] | Some c \<Rightarrow> c)
                \<notin> set ALLOWED_CURRENCIES)"
  shows "k \<notin> fst ` set (validateOptionalFields invoice (validateItems invoice e))"
proof -
  let ?P = "\<lambda>e. k \<notin> fst ` set e"
  have step: "?P (addError f m e')" if "f \<noteq> k" and "?P e'" for f m and e' :: ValidationErrors
    using that by (auto simp: keys_addError)
  have i: "?P (validateItems invoice e)"
  proof (rule validateItems_inv [where P = ?P, OF _ assms(1)])
    fix f m :: string and e' :: ValidationErrors
    assume "f = ''items'' \<or> itemLevel f" and e': "?P e'"
    then have "f \<noteq> k" using assms(2,3) by auto
    then show "?P (addError f m e')" using e' by (rule step)
  qed
  let ?e1 = "case inv_foreignCurrency invoice of
               None \<Rightarrow> validateItems invoice e
             | Some currency \<Rightarrow>
                 if currency \<noteq> [] \<and> currency \<notin> set ALLOWED_CURRENCIES
                 then addError ''foreignCurrency''
                        (''Devise invalide: '' @ currency @ ''. Valeurs accept'' @ e_acute @
                         ''es: '' @ join '', '' ALLOWED_CURRENCIES)
                        (validateItems invoice e)
                 else validateItems invoice e"
  have c: "?P ?e1"
    using i assms(6) by (cases "inv_foreignCurrency invoice") (auto simp: keys_addError)
  have d: "\<And>m e'. ?P e' \<Longrightarrow> ?P (addError ''discount'' m e')"
    and r: "\<And>m e'. ?P e' \<Longrightarrow> ?P (addError ''rne'' m e')"
    using assms(5) by (auto simp: keys_addError)
  have t: "\<And>f m e'. startsWith f ([] @ ''customTaxes['') \<Longrightarrow> ?P e' \<Longrightarrow> ?P (addError f m e')"
    using assms(4) by (auto simp: keys_addError)
  show ?thesis
    unfolding validateOptionalFields_def Let_def
    by (intro if_inv [where P = ?P] d r c forEach_inv [where P = ?P]
          validateCustomTax_inv [where P = ?P] t)
qed

lemma no_currency_keys_before_template:
  "k \<in> set [''foreignCurrency'', ''foreignCurrencyRate''] \<Longrightarrow>
   k \<notin> fst ` set (validateClientFields invoice (validateBaseFields invoice []))"
proof -
  assume k: "k \<in> set [''foreignCurrency'', ''foreignCurrencyRate'']"
  let ?P = "\<lambda>e. k \<notin> fst ` set e"
  have step: "?P (addError f m e')" if "f \<noteq> k" and "?P e'" for f m and e' :: ValidationErrors
    using that by (auto simp: keys_addError)
  have fixed: "f \<noteq> k"
    if "f \<in> set [''invoiceType'', ''paymentMethod'', ''template'', ''pointOfSale'',
                   ''establishment'', ''clientCompanyName'', ''clientPhone'', ''clientEmail'']"
    for f
    using that k by auto
  have b: "?P (validateBaseFields invoice [])"
    by (rule validateBaseFields_inv [where P = ?P]) (rule step, rule fixed, auto)
  show ?thesis
    by (rule validateClientFields_inv [where P = ?P, OF _ b]) (rule step, rule fixed, auto)
qed

lemma keys_validateInArray:
  "fst ` set (snd (validateInArray f v allowed n e)) =
     (if v \<notin> set allowed then insert f (fst ` set e) else fst ` set e)"
  by (simp add: validateInArray_def Let_def keys_addError)

lemma template_keys_export:
  assumes "inv_template invoice = ''B2F''"
    and "''foreignCurrency'' \<notin> fst ` set e" and "''foreignCurrencyRate'' \<notin> fst ` set e"
  shows "(''foreignCurrencyRate'' \<in> fst ` set (validateTemplateRules invoice e)) =
           (truthy (inv_foreignCurrency invoice) \<and>
            js_le (inv_foreignCurrencyRate invoice) (Num 0))"
    and "(''foreignCurrency'' \<in> fst ` set (validateTemplateRules invoice e)) =
           (\<not> truthy (inv_foreignCurrency invoice) \<or>
            (case inv_foreignCurrency invoice of None \<Rightarrow> [] | Some c \<Rightarrow> c)
              \<notin> set ALLOWED_CURRENCIES)"
  using assms
  by (cases "inv_foreignCurrency invoice";
      simp add: validateTemplateRules_def Let_def keys_addError keys_validateInArray)+

lemma export_keys_exact:
  assumes "inv_template invoice = ''B2F''"
  shows "(''foreignCurrencyRate'' \<in> fst ` set (snd (validate errors invoice))) =
           (truthy (inv_foreignCurrency invoice) \<and>
            js_le (inv_foreignCurrencyRate invoice) (Num 0))"
    and "(''foreignCurrency'' \<in> fst ` set (snd (validate errors invoice))) =
           (\<not> truthy (inv_foreignCurrency invoice) \<or>
            (case inv_foreignCurrency invoice of None \<Rightarrow> [] | Some c \<Rightarrow> c)
              \<notin> set ALLOWED_CURRENCIES)"
proof -
  let ?e2 = "validateClientFields invoice (validateBaseFields invoice [])"
  let ?e3 = "validateTemplateRules invoice ?e2"
  have run: "snd (validate errors invoice) =
               validateOptionalFields invoice (validateItems invoice ?e3)"
    by (simp add: validate_def Let_def runValidation_def resetErrors_def)
  have n1: "''foreignCurrency'' \<notin> fst ` set ?e2" and n2: "''foreignCurrencyRate'' \<notin> fst ` set ?e2"
    by (rule no_currency_keys_before_template, simp)+
  note t = template_keys_export [OF assms n1 n2]
  show "(''foreignCurrencyRate'' \<in> fst ` set (snd (validate errors invoice))) =
           (truthy (inv_foreignCurrency invoice) \<and>
            js_le (inv_foreignCurrencyRate invoice) (Num 0))"
  proof (cases "''foreignCurrencyRate'' \<in> fst ` set ?e3")
    case True
    then show ?thesis unfolding run using key_after_template_kept [of _ invoice ?e2] t(1) by blast
  next
    case False
    have "''foreignCurrencyRate'' \<notin> fst ` set (validateOptionalFields invoice
                                                  (validateItems invoice ?e3))"
      by (rule key_absent_kept [OF False]) (simp_all add: itemLevel_def startsWith_def)
    then show ?thesis unfolding run using False t(1) by blast
  qed
  show "(''foreignCurrency'' \<in> fst ` set (snd (validate errors invoice))) =
           (\<not> truthy (inv_foreignCurrency invoice) \<or>
            (case inv_foreignCurrency invoice of None \<Rightarrow> [] | Some c \<Rightarrow> c)
              \<notin> set ALLOWED_CURRENCIES)"
  proof (cases "''foreignCurrency'' \<in> fst ` set ?e3")
    case True
    then show ?thesis unfolding run using key_after_template_kept [of _ invoice ?e2] t(2) by blast
  next
    case False
    have "''foreignCurrency'' \<notin> fst ` set (validateOptionalFields invoice
                                              (validateItems invoice ?e3))"
      using False t(2)
      by (intro key_absent_kept [OF False]) (auto simp: itemLevel_def startsWith_def)
    then show ?thesis unfolding run using False t(2) by blast
  qed
qed


section \<open>A document without line items\<close>

lemma customTaxes_not_itemsRelated: "startsWith f ''customTaxes['' \<Longrightarrow> \<not> itemsRelated f"
  by (cases f) (auto simp: startsWith_def itemsRelated_def)

lemma itemLevel_itemsRelated: "itemLevel k \<Longrightarrow> itemsRelated k"
  unfolding itemLevel_def itemsRelated_def
  by (rule startsWith_append [of k "''items''" "''[''"]) simp

lemma add_not_itemsRelated:
  "\<not> itemsRelated f \<Longrightarrow> \<forall>k \<in> fst ` set e. \<not> itemsRelated k \<Longrightarrow>
   \<forall>k \<in> fst ` set (addError f m e). \<not> itemsRelated k"
  by (simp add: keys_addError)

text \<open>The first three phases record nothing about the items.\<close>

lemma nothing_about_items_before:
  "\<forall>k \<in> fst ` set (validateTemplateRules invoice
                       (validateClientFields invoice (validateBaseFields invoice []))).
     \<not> itemsRelated k"
proof -
  let ?P = "\<lambda>e. \<forall>k \<in> fst ` set e. \<not> itemsRelated k"
  have fixed: "\<not> itemsRelated f"
    if "f \<in> set [''invoiceType'', ''paymentMethod'', ''template'', ''pointOfSale'',
                   ''establishment'', ''clientCompanyName'', ''clientPhone'', ''clientEmail'',
                   ''clientNcc'', ''foreignCurrency'', ''foreignCurrencyRate'']" for f
    using that by (auto simp: itemsRelated_def startsWith_def)
  have step: "?P (addError f m e')"
    if "\<not> itemsRelated f" and "?P e'" for f m and e' :: ValidationErrors
    using that by (simp add: keys_addError)
  have b: "?P (validateBaseFields invoice [])"
    by (rule validateBaseFields_inv [where P = ?P]) (rule step, rule fixed, auto)
  have c: "?P (validateClientFields invoice (validateBaseFields invoice []))"
    by (rule validateClientFields_inv [where P = ?P, OF _ b]) (rule step, rule fixed, auto)
  show ?thesis
    by (rule validateTemplateRules_inv [where P = ?P, OF _ c]) (rule step, rule fixed, auto)
qed

text \<open>The last phase adds no key about the items and keeps the key \<open>items\<close>.\<close>

lemma only_items_after:
  assumes "''items'' \<in> fst ` set e \<and> (\<forall>k \<in> fst ` set e. itemsRelated k \<longrightarrow> k = ''items'')"
  shows "''items'' \<in> fst ` set (validateOptionalFields invoice e) \<and>
         (\<forall>k \<in> fst ` set (validateOptionalFields invoice e). itemsRelated k \<longrightarrow> k = ''items'')"
proof (rule validateOptionalFields_inv
    [where P = "\<lambda>e. ''items'' \<in> fst ` set e \<and>
                     (\<forall>k \<in> fst ` set e. itemsRelated k \<longrightarrow> k = ''items'')"])
  fix f m :: string and e' :: ValidationErrors
  assume f: "f \<in> set [''foreignCurrency'', ''discount'', ''rne''] \<or> startsWith f ''customTaxes[''"
    and e': "''items'' \<in> fst ` set e' \<and> (\<forall>k \<in> fst ` set e'. itemsRelated k \<longrightarrow> k = ''items'')"
  have "\<not> itemsRelated f"
  proof (cases "startsWith f ''customTaxes[''")
    case True
    then show ?thesis by (rule customTaxes_not_itemsRelated)
  next
    case False
    then have "f \<in> set [''foreignCurrency'', ''discount'', ''rne'']" using f by blast
    then show ?thesis by (auto simp: itemsRelated_def startsWith_def)
  qed
  then show "''items'' \<in> fst ` set (addError f m e') \<and>
             (\<forall>k \<in> fst ` set (addError f m e'). itemsRelated k \<longrightarrow> k = ''items'')"
    using e' by (simp add: keys_addError)
next
  show "''items'' \<in> fst ` set e \<and> (\<forall>k \<in> fst ` set e. itemsRelated k \<longrightarrow> k = ''items'')"
    by (rule assms)
qed

lemma filter_single:
  "distinct xs \<Longrightarrow> a \<in> set xs \<Longrightarrow> Q a \<Longrightarrow> (\<forall>x \<in> set xs. Q x \<longrightarrow> x = a) \<Longrightarrow>
   filter Q xs = [a]"
proof (induction xs)
  case Nil
  then show ?case by simp
next
  case (Cons x xs)
  have d: "distinct xs" and nx: "x \<notin> set xs" using Cons.prems(1) by simp_all
  have only: "\<forall>y \<in> set xs. Q y \<longrightarrow> y = a" using Cons.prems(4) by simp
  show ?case
  proof (cases "x = a")
    case True
    have "\<forall>y \<in> set xs. \<not> Q y" using only nx True by blast
    then have "filter Q xs = []" by (simp add: filter_empty_conv)
    then show ?thesis using True Cons.prems(3) by simp
  next
    case False
    have nq: "\<not> Q x" using Cons.prems(4) False by simp
    have "a \<in> set xs" using Cons.prems(2) False by simp
    then have "filter Q xs = [a]" using Cons.IH d Cons.prems(3) only by blast
    then show ?thesis using nq by simp
  qed
qed

text \<open>
  C4. For every document with no line item, whatever its other fields and whatever the
  validator held before, \<open>validate\<close> throws a \<open>ValidationError\<close>; among the keys of its
  error set exactly one concerns the items, the key \<open>items\<close>, and none is the key of a
  line item (\<open>items[i]...\<close>).
\<close>

theorem C4_no_items:
  assumes "inv_items invoice = []"
  shows "\<exists>errs. validate errors invoice = (Inl (ValidationError errs), errs) \<and>
                filter itemsRelated (map fst errs) = [''items''] \<and>
                (\<forall>k \<in> set (map fst errs). \<not> itemLevel k)"
proof -
  let ?e3 = "validateTemplateRules invoice
               (validateClientFields invoice (validateBaseFields invoice []))"
  let ?errs = "runValidation errors invoice"
  have items: "validateItems invoice ?e3 =
                 addError ''items'' ''La facture doit contenir au moins un article'' ?e3"
    using assms by (simp add: validateItems_def)
  have e4: "''items'' \<in> fst ` set (validateItems invoice ?e3) \<and>
            (\<forall>k \<in> fst ` set (validateItems invoice ?e3). itemsRelated k \<longrightarrow> k = ''items'')"
    unfolding items using nothing_about_items_before [of invoice]
    by (simp add: keys_addError)
  have run: "?errs = validateOptionalFields invoice (validateItems invoice ?e3)"
    by (simp add: runValidation_def resetErrors_def)
  have e5: "''items'' \<in> fst ` set ?errs \<and>
            (\<forall>k \<in> fst ` set ?errs. itemsRelated k \<longrightarrow> k = ''items'')"
    unfolding run by (rule only_items_after [OF e4])
  have rel: "itemsRelated ''items''"
    by (simp add: itemsRelated_def startsWith_def)
  have one: "filter itemsRelated (map fst ?errs) = [''items'']"
    using e5 rel by (intro filter_single distinct_runValidation) auto
  have nolevel: "\<forall>k \<in> set (map fst ?errs). \<not> itemLevel k"
  proof
    fix k
    assume k: "k \<in> set (map fst ?errs)"
    show "\<not> itemLevel k"
    proof
      assume l: "itemLevel k"
      then have "k = ''items''" using e5 k itemLevel_itemsRelated by auto
      then show False using l by (simp add: itemLevel_def startsWith_def)
    qed
  qed
  have throws: "validate errors invoice = (Inl (ValidationError ?errs), ?errs)"
    using throws_when_key [of "''items''" errors invoice] e5
    by (simp add: validate_def Let_def)
  show ?thesis using throws one nolevel by blast
qed

theorem C4_no_items_witness:
  "\<exists>errs. validate []
            (exampleInvoice\<lparr>inv_pointOfSale := [], inv_clientPhone := ''123'', inv_items := []\<rparr>) =
            (Inl (ValidationError errs), errs) \<and>
          filter itemsRelated (map fst errs) = [''items''] \<and>
          (\<forall>k \<in> set (map fst errs). \<not> itemLevel k)"
proof -
  have h: "inv_items
             (exampleInvoice\<lparr>inv_pointOfSale := [], inv_clientPhone := ''123'', inv_items := []\<rparr>)
           = []"
    by simp
  show ?thesis by (rule C4_no_items [OF h])
qed

section \<open>One message for each field path\<close>

lemma blank_not_allowed_type:
  assumes "length (trim t) = 0"
  shows "t \<notin> set ALLOWED_INVOICE_TYPES"
proof -
  have "trim ''sale'' \<noteq> []" and "trim ''purchase'' \<noteq> []" by code_simp+
  then have "t \<noteq> ''sale''" and "t \<noteq> ''purchase''" using assms by auto
  then show ?thesis
    by (simp add: ALLOWED_INVOICE_TYPES_def INVOICE_TYPE_SALE_def INVOICE_TYPE_PURCHASE_def)
qed

lemma base_invoiceType_message:
  assumes "length (trim (inv_invoiceType invoice)) = 0"
  shows "map_of (validateBaseFields invoice []) ''invoiceType'' =
           Some (''La valeur de type de facture doit '' @ e_circ @ ''tre parmi: sale, purchase'')"
proof -
  let ?msg = "''La valeur de type de facture doit '' @ e_circ @ ''tre parmi: sale, purchase''"
  let ?P = "\<lambda>e. map_of e ''invoiceType'' = Some ?msg"
  have fr: "\<And>f m e'. f \<noteq> ''invoiceType'' \<Longrightarrow> ?P e' \<Longrightarrow> ?P (addError f m e')"
    by (simp add: map_of_addError)
  have j: "join '', '' ALLOWED_INVOICE_TYPES = ''sale, purchase''"
    by code_simp
  have start: "?P (snd (validateInArray ''invoiceType'' (inv_invoiceType invoice)
                          ALLOWED_INVOICE_TYPES (Some ''type de facture'')
                          (snd (validateRequired ''invoiceType''
                                  (Some (inv_invoiceType invoice)) None []))))"
    using blank_not_allowed_type [OF assms]
    by (simp add: validateInArray_def Let_def displayNameOf_def map_of_addError j)
  show ?thesis
    unfolding validateBaseFields_def Let_def
    apply (rule validateRequired_inv [where P = ?P])
     apply (rule fr; simp)
    apply (rule validateRequired_inv [where P = ?P])
     apply (rule fr; simp)
    apply (rule validateInArray_inv [where P = ?P])
     apply (rule fr; simp)
    apply (rule validateRequired_inv [where P = ?P])
     apply (rule fr; simp)
    apply (rule validateInArray_inv [where P = ?P])
     apply (rule fr; simp)
    apply (rule validateRequired_inv [where P = ?P])
     apply (rule fr; simp)
    apply (rule start)
    done
qed

text \<open>No phase after the first writes the key \<open>invoiceType\<close>.\<close>

lemma invoiceType_untouched_later:
  assumes "map_of e ''invoiceType'' = v"
  shows "map_of (validateOptionalFields invoice
                   (validateItems invoice
                      (validateTemplateRules invoice (validateClientFields invoice e))))
           ''invoiceType'' = v"
proof -
  let ?P = "\<lambda>e. map_of e ''invoiceType'' = v"
  have step: "?P (addError f m e')"
    if "f \<noteq> ''invoiceType''" and "?P e'" for f m and e' :: ValidationErrors
    using that by (simp add: map_of_addError)
  have fixed: "f \<noteq> ''invoiceType''"
    if "f \<in> set [''clientCompanyName'', ''clientPhone'', ''clientEmail'', ''clientNcc'',
                   ''foreignCurrency'', ''foreignCurrencyRate'', ''discount'', ''rne'',
                   ''items'']" for f
    using that by auto
  have level: "f \<noteq> ''invoiceType''" if "itemLevel f" for f
    using that by (auto simp: itemLevel_def startsWith_def)
  have custom: "f \<noteq> ''invoiceType''" if "startsWith f ''customTaxes[''" for f
    using that by (auto simp: startsWith_def)
  have c: "?P (validateClientFields invoice e)"
    by (rule validateClientFields_inv [where P = ?P, OF _ assms]) (rule step, rule fixed, auto)
  have t: "?P (validateTemplateRules invoice (validateClientFields invoice e))"
    by (rule validateTemplateRules_inv [where P = ?P, OF _ c]) (rule step, rule fixed, auto)
  have i: "?P (validateItems invoice
                 (validateTemplateRules invoice (validateClientFields invoice e)))"
  proof (rule validateItems_inv [where P = ?P, OF _ t])
    fix f m :: string and e' :: ValidationErrors
    assume f: "f = ''items'' \<or> itemLevel f" and e': "?P e'"
    have "f \<noteq> ''invoiceType''" using f level by auto
    then show "?P (addError f m e')" using e' by (rule step)
  qed
  show ?thesis
  proof (rule validateOptionalFields_inv [where P = ?P, OF _ i])
    fix f m :: string and e' :: ValidationErrors
    assume f: "f \<in> set [''foreignCurrency'', ''discount'', ''rne''] \<or>
               startsWith f ''customTaxes[''"
      and e': "?P e'"
    have "f \<noteq> ''invoiceType''" using f custom by auto
    then show "?P (addError f m e')" using e' by (rule step)
  qed
qed

text \<open>
  C10. The error set left by a run has each field path once. Recording a second message
  at a field path replaces the first and adds no entry. And when the invoice type is
  empty or blank, the required-field rule records its message first, the allowed-value
  rule records its own at the same key after it, and the error set thrown holds the
  allowed-value message at \<open>invoiceType\<close>.
\<close>

theorem C10_one_message_per_field:
  "distinct (map fst (snd (validate errors invoice))) \<and>
   map_of (addError f m2 (addError f m1 e)) f = Some m2 \<and>
   map fst (addError f m2 (addError f m1 e)) = map fst (addError f m1 e) \<and>
   (length (trim (inv_invoiceType invoice)) = 0 \<longrightarrow>
      map_of (snd (validateRequired ''invoiceType'' (Some (inv_invoiceType invoice)) None []))
        ''invoiceType'' = Some ''Le champ invoiceType est requis'' \<and>
      map_of (snd (validate errors invoice)) ''invoiceType'' =
        Some (''La valeur de type de facture doit '' @ e_circ @ ''tre parmi: sale, purchase''))"
proof (intro conjI impI)
  show "distinct (map fst (snd (validate errors invoice)))"
    by (simp add: validate_def Let_def distinct_runValidation)
next
  show "map_of (addError f m2 (addError f m1 e)) f = Some m2"
    by (simp add: map_of_addError)
next
  show "map fst (addError f m2 (addError f m1 e)) = map fst (addError f m1 e)"
    by (simp add: addError_def update_keys)
next
  assume "length (trim (inv_invoiceType invoice)) = 0"
  then show "map_of (snd (validateRequired ''invoiceType'' (Some (inv_invoiceType invoice))
                            None [])) ''invoiceType'' = Some ''Le champ invoiceType est requis''"
    by (simp add: validateRequired_def Let_def displayNameOf_def map_of_addError)
next
  assume a: "length (trim (inv_invoiceType invoice)) = 0"
  show "map_of (snd (validate errors invoice)) ''invoiceType'' =
        Some (''La valeur de type de facture doit '' @ e_circ @ ''tre parmi: sale, purchase'')"
    unfolding validate_def Let_def snd_conv runValidation_def resetErrors_def
    by (rule invoiceType_untouched_later [OF base_invoiceType_message [OF a]])
qed

theorem C10_one_message_per_field_witness:
  "distinct (map fst (snd (validate [] (exampleInvoice\<lparr>inv_invoiceType := []\<rparr>)))) \<and>
   map_of (snd (validate [] (exampleInvoice\<lparr>inv_invoiceType := []\<rparr>))) ''invoiceType'' =
     Some (''La valeur de type de facture doit '' @ e_circ @ ''tre parmi: sale, purchase'')"
proof -
  have h: "length (trim (inv_invoiceType (exampleInvoice\<lparr>inv_invoiceType := []\<rparr>))) = 0"
    by (simp add: trim_def)
  show ?thesis
    using C10_one_message_per_field [of "[]" "exampleInvoice\<lparr>inv_invoiceType := []\<rparr>"] h
    by blast
qed


section \<open>The repository's own tests, on the model\<close>

lemma test_valid_invoice: "validate [] exampleInvoice = (Inr (), [])"
  by code_simp

lemma test_valid_export_invoice: "fst (validate [] exportInvoice) = Inr ()"
  by code_simp

lemma test_no_items:
  "validate [] (exampleInvoice\<lparr>inv_items := []\<rparr>) =
     (Inl (ValidationError [(''items'', ''La facture doit contenir au moins un article'')]),
      [(''items'', ''La facture doit contenir au moins un article'')])"
  by code_simp

lemma test_isValidPhone:
  "isValidPhone ''0709123456'' \<and> isValidPhone ''07 09 12 34 56'' \<and>
   isValidPhone ''+2250709123456'' \<and> isValidPhone ''2250709123456'' \<and>
   \<not> isValidPhone ''123'' \<and> \<not> isValidPhone ''abcdefghij''"
  by code_simp

lemma test_isValidNcc:
  "isValidNcc ''9500015F'' \<and> \<not> isValidNcc ''95000156'' \<and> \<not> isValidNcc ''''"
  by code_simp

lemma test_isValidEmail:
  "isValidEmail ''jean@email.com'' \<and> \<not> isValidEmail ''invalid-email'' \<and>
   \<not> isValidEmail ''a@b'' \<and> \<not> isValidEmail ''a b@c.d''"
  by code_simp

lemma test_item_toArray:
  "InvoiceItem_toArray discountedItem =
     [(''description'', JString ''Product''), (''quantity'', JNumber (Num 1)),
      (''amount'', JNumber (Num 10000)), (''taxes'', JArray [JString ''TVA'']),
      (''discount'', JNumber (Num 10)),
      (''customTaxes'',
       JArray [JObject [(''name'', JString ''DTD''), (''amount'', JNumber (Num 1000))]])]"
  by code_simp

lemma test_custom_tax:
  "InvoiceItem_addCustomTax ''DTD'' (Num 1000) (exampleItem\<lparr>it_discount := Num 10\<rparr>) =
     Inr discountedItem"
  by code_simp


end
